theory Spec2Isabelle
  imports Main "HOL-Library.Word" "HOL-Library.Monad_Syntax"
begin

unbundle bit_operations_syntax

section \<open>Heap objects\<close>

text \<open>
  An \<open>object\<close> of run.cpp is a pointer into the managed heap; here it is a handle, and
  the handle 0 is the null reference.  Every heap object carries its class in its first
  word, and run.cpp asks for the kind of an object by comparing that word with an entry
  of \<open>t->vm->types\<close>; the model keeps the kind of an object as the constructor of its
  value in the heap, so such a comparison reads the constructor.  An accessor applied to
  the null reference or to an object of another kind has no defined result: it is
  \<open>None\<close>, as is every \<open>abort(t)\<close> of the source.  \<open>Instance c\<close> is an object of
  the class \<open>c\<close> (a throwable, for one); its fields and the message string of a
  throwable are not modelled.
\<close>

type_synonym object = nat

datatype fieldcode =
  VoidField | ByteField | CharField | DoubleField | FloatField | IntField
  | LongField | ShortField | BooleanField | ObjectField

record jclass =
  c_flags :: "16 word"
  c_name :: object
  c_super :: object
  c_interfaceTable :: object
  c_virtualTable :: object
  c_fieldTable :: object
  c_methodTable :: object
  c_staticTable :: object
  c_initializer :: object

record jfield =
  f_class :: object
  f_code :: fieldcode
  f_offset :: "32 word"
  f_name :: object
  f_spec :: object

record jmethod =
  m_flags :: "16 word"
  m_class :: object
  m_code :: object
  m_name :: object
  m_spec :: object
  m_parameterFootprint :: "32 word"
  m_offset :: "32 word"

record jcode =
  k_pool :: object
  k_exceptionHandlerTable :: object
  k_maxStack :: "32 word"
  k_maxLocals :: "32 word"
  k_body :: "8 word list"

record handler =
  eh_start :: "16 word"
  eh_end :: "16 word"
  eh_ip :: "16 word"
  eh_catchType :: "16 word"

record jreference =
  r_class :: object
  r_name :: object
  r_spec :: object

datatype hobj =
    ByteArray "8 word list"
  | Array "object list"
  | Class jclass
  | Field jfield
  | Method jmethod
  | Code jcode
  | HandlerTable "handler list"
  | Reference jreference
  | IntBox "32 word"
  | LongBox "64 word"
  | Instance object

datatype vmtype =
    ByteArrayType | ArrayType | ClassType | FieldType | MethodType | CodeType
  | HandlerTableType | ReferenceType | IntType | LongType
  | ClassCastExceptionType | NoSuchFieldErrorType | NoSuchMethodErrorType
  | NoClassDefFoundErrorType | NullPointerExceptionType | StackOverflowErrorType

section \<open>The thread\<close>

text \<open>
  The fields of \<open>Thread\<close> that run.cpp reads and writes: \<open>ip\<close> and \<open>sp\<close> are
  \<open>unsigned\<close>, \<open>frame\<close> is an \<open>int\<close> (read as a signed 32-bit word, -1 when there is
  no frame), \<open>code\<close> and \<open>exception\<close> are objects.  A logical stack slot is two machine
  words, a tag and a value.  The heap, the table of built-in types and the class finder
  belong to the machine the thread runs on; \<open>monitors\<close> counts, per object, the
  acquisitions this thread has not released.
\<close>

datatype tag = IntTag | ObjectTag

type_synonym slot = "tag \<times> nat"

record thread =
  ip :: "32 word"
  sp :: "32 word"
  frame :: "32 word"
  code :: object
  exception :: object
  stack :: "32 word \<Rightarrow> slot"
  heap :: "object \<Rightarrow> hobj option"
  nextFree :: nat
  types :: "vmtype \<Rightarrow> object"
  finder :: "8 word list \<Rightarrow> object"
  monitors :: "object \<Rightarrow> nat"

datatype control = GotoLoop | GotoInvoke | GotoThrow | Return object | Uncaught

text \<open>
  The result of one case of the dispatch switch: the label control goes to next
  (\<open>Return\<close> for a \<open>return\<close> statement of \<open>run\<close>, \<open>Uncaught\<close> for the report of an
  uncaught exception that ends \<open>run\<close>), and the thread after it.
\<close>

type_synonym outcome = "(control \<times> thread) option"

definition bootThread :: thread where
  "bootThread = \<lparr> ip = 0, sp = 0, frame = - 1, code = 0, exception = 0,
     stack = (\<lambda>_. (IntTag, 0)), heap = (\<lambda>_. None), nextFree = 0,
     types = (\<lambda>_. 0), finder = (\<lambda>_. 0), monitors = (\<lambda>_. 0) \<rparr>"

section \<open>Operand stack and locals\<close>

text \<open>
  Modelled from the spec: machine.h, which declares the stack primitives and the frame
  layout, is not among the sources.  A slot is one tag word and one value word;
  \<open>pushInt\<close> and \<open>popInt\<close> move a 32-bit value through one slot, \<open>pushLong\<close> and
  \<open>popLong\<close> a 64-bit value through two (high half first), \<open>pushObject\<close> and
  \<open>popObject\<close> an object through one; the peeks and pokes address a slot by index.
  \<open>popInt\<close> returns \<open>uint32_t\<close>: run.cpp casts its result to \<open>int32_t\<close> before every
  signed comparison.
\<close>

definition pokeInt :: "thread \<Rightarrow> 32 word \<Rightarrow> 32 word \<Rightarrow> thread" where
  "pokeInt t i v = t\<lparr>stack := (stack t)(i := (IntTag, unat v))\<rparr>"

definition pokeObject :: "thread \<Rightarrow> 32 word \<Rightarrow> object \<Rightarrow> thread" where
  "pokeObject t i v = t\<lparr>stack := (stack t)(i := (ObjectTag, v))\<rparr>"

definition peekInt :: "thread \<Rightarrow> 32 word \<Rightarrow> 32 word" where
  "peekInt t i = word_of_nat (snd (stack t i))"

definition peekObject :: "thread \<Rightarrow> 32 word \<Rightarrow> object" where
  "peekObject t i = snd (stack t i)"

definition pushInt :: "thread \<Rightarrow> 32 word \<Rightarrow> thread" where
  "pushInt t v = (pokeInt t (sp t) v)\<lparr>sp := sp t + 1\<rparr>"

definition pushObject :: "thread \<Rightarrow> object \<Rightarrow> thread" where
  "pushObject t v = (pokeObject t (sp t) v)\<lparr>sp := sp t + 1\<rparr>"

definition popInt :: "thread \<Rightarrow> 32 word \<times> thread" where
  "popInt t = (peekInt t (sp t - 1), t\<lparr>sp := sp t - 1\<rparr>)"

definition popObject :: "thread \<Rightarrow> object \<times> thread" where
  "popObject t = (peekObject t (sp t - 1), t\<lparr>sp := sp t - 1\<rparr>)"

definition pushLong :: "thread \<Rightarrow> 64 word \<Rightarrow> thread" where
  "pushLong t v = pushInt (pushInt t (ucast (drop_bit 32 v))) (ucast v)"

definition popLong :: "thread \<Rightarrow> 64 word \<times> thread" where
  "popLong t =
     (let (b, t1) = popInt t; (a, t2) = popInt t1
      in (push_bit 32 (ucast a) OR ucast b, t2))"

text \<open>
  Modelled from the spec: the frame record is \<open>FrameFootprint\<close> slots holding the base,
  the previous frame, the method and the saved ip; the offsets are constants of machine.h.
\<close>

definition FrameBaseOffset :: "32 word" where "FrameBaseOffset = 0"
definition FrameNextOffset :: "32 word" where "FrameNextOffset = 1"
definition FrameMethodOffset :: "32 word" where "FrameMethodOffset = 2"
definition FrameIpOffset :: "32 word" where "FrameIpOffset = 3"
definition FrameFootprint :: "32 word" where "FrameFootprint = 4"

definition frameBase :: "thread \<Rightarrow> 32 word \<Rightarrow> 32 word" where
  "frameBase t f = peekInt t (f + FrameBaseOffset)"

definition frameNext :: "thread \<Rightarrow> 32 word \<Rightarrow> 32 word" where
  "frameNext t f = peekInt t (f + FrameNextOffset)"

definition frameMethod :: "thread \<Rightarrow> 32 word \<Rightarrow> object" where
  "frameMethod t f = peekObject t (f + FrameMethodOffset)"

definition frameIp :: "thread \<Rightarrow> 32 word \<Rightarrow> 32 word" where
  "frameIp t f = peekInt t (f + FrameIpOffset)"

definition localInt :: "thread \<Rightarrow> 32 word \<Rightarrow> 32 word" where
  "localInt t i = peekInt t (frameBase t (frame t) + i)"

definition setLocalInt :: "thread \<Rightarrow> 32 word \<Rightarrow> 32 word \<Rightarrow> thread" where
  "setLocalInt t i v = pokeInt t (frameBase t (frame t) + i) v"

section \<open>Accessors of heap objects\<close>

text \<open>
  The accessors of the code object.  \<open>codeBody(t, code, i)\<close> is a byte of the bytecode,
  an \<open>uint8_t\<close>: run.cpp stores it in \<open>uint8_t\<close> locals, switches on it as an unsigned
  opcode, and converts it to \<open>int8_t\<close> where it wants a signed byte (\<open>iinc\<close>).  A read
  past the end of the body has no defined result.
\<close>

definition codeOf :: "thread \<Rightarrow> object \<Rightarrow> jcode option" where
  "codeOf t c = (case heap t c of Some (Code k) \<Rightarrow> Some k | _ \<Rightarrow> None)"

definition codeBody :: "thread \<Rightarrow> object \<Rightarrow> 32 word \<Rightarrow> 8 word option" where
  "codeBody t c i =
     (case codeOf t c of
        Some k \<Rightarrow> (if unat i < length (k_body k) then Some (k_body k ! unat i) else None)
      | None \<Rightarrow> None)"

section \<open>Cases of the dispatch switch: constants, arithmetic, branches\<close>

text \<open>
  Each definition is one \<open>case\<close> of the switch in \<open>run\<close>, entered after the opcode has
  been fetched (\<open>ip\<close> is the address after the opcode byte).
\<close>

definition run_bipush :: "thread \<Rightarrow> outcome" where
  "run_bipush t = do {
     b \<leftarrow> codeBody t (code t) (ip t);
     Some (GotoLoop, pushInt (t\<lparr>ip := ip t + 1\<rparr>) (ucast b))
   }"

definition run_sipush :: "thread \<Rightarrow> outcome" where
  "run_sipush t = do {
     byte1 \<leftarrow> codeBody t (code t) (ip t);
     byte2 \<leftarrow> codeBody t (code t) (ip t + 1);
     Some (GotoLoop, pushInt (t\<lparr>ip := ip t + 2\<rparr>) (push_bit 8 (ucast byte1) OR ucast byte2))
   }"

text \<open>
  \<open>a >> b\<close> on \<open>int32_t\<close>: the arithmetic shift for a count in 0..31, and no defined
  result for any other count.
\<close>

definition shiftRightInt :: "32 word \<Rightarrow> 32 word \<Rightarrow> 32 word option" where
  "shiftRightInt a b = (if b < 32 then Some (signed_drop_bit (unat b) a) else None)"

definition run_iushr :: "thread \<Rightarrow> outcome" where
  "run_iushr t =
     (let (b, t1) = popInt t; (a, t2) = popInt t1
      in do { r \<leftarrow> shiftRightInt a b; Some (GotoLoop, pushInt t2 r) })"

definition offset32 :: "8 word \<Rightarrow> 8 word \<Rightarrow> 8 word \<Rightarrow> 8 word \<Rightarrow> 32 word" where
  "offset32 o1 o2 o3 o4 =
     push_bit 24 (ucast o1) OR push_bit 16 (ucast o2) OR push_bit 8 (ucast o3) OR ucast o4"

definition run_goto_w :: "thread \<Rightarrow> outcome" where
  "run_goto_w t = do {
     offset1 \<leftarrow> codeBody t (code t) (ip t);
     offset2 \<leftarrow> codeBody t (code t) (ip t + 1);
     offset3 \<leftarrow> codeBody t (code t) (ip t + 2);
     offset4 \<leftarrow> codeBody t (code t) (ip t + 3);
     Some (GotoLoop, t\<lparr>ip := ((ip t + 4) - 5) + offset32 offset1 offset2 offset3 offset4\<rparr>)
   }"

definition run_jsr_w :: "thread \<Rightarrow> outcome" where
  "run_jsr_w t = do {
     offset1 \<leftarrow> codeBody t (code t) (ip t);
     offset2 \<leftarrow> codeBody t (code t) (ip t + 1);
     offset3 \<leftarrow> codeBody t (code t) (ip t + 2);
     offset4 \<leftarrow> codeBody t (code t) (ip t + 3);
     let t1 = pushInt (t\<lparr>ip := ip t + 4\<rparr>) (ip t + 4);
     Some (GotoLoop, t1\<lparr>ip := (ip t1 - 3) + offset32 offset1 offset2 offset3 offset4\<rparr>)
   }"

definition run_iinc :: "thread \<Rightarrow> outcome" where
  "run_iinc t = do {
     index \<leftarrow> codeBody t (code t) (ip t);
     c \<leftarrow> codeBody t (code t) (ip t + 1);
     let t1 = t\<lparr>ip := ip t + 2\<rparr>;
     Some (GotoLoop, setLocalInt t1 (ucast index) (localInt t1 (ucast index) + scast c))
   }"

definition run_wide_iinc :: "thread \<Rightarrow> outcome" where
  "run_wide_iinc t = do {
     index1 \<leftarrow> codeBody t (code t) (ip t);
     index2 \<leftarrow> codeBody t (code t) (ip t + 1);
     let index = (push_bit 8 (ucast index1) OR ucast index2 :: 16 word);
     count1 \<leftarrow> codeBody t (code t) (ip t + 2);
     count2 \<leftarrow> codeBody t (code t) (ip t + 3);
     let count = (push_bit 8 (ucast count1) OR ucast count2 :: 16 word);
     let t1 = t\<lparr>ip := ip t + 4\<rparr>;
     Some (GotoLoop, setLocalInt t1 (ucast index) (localInt t1 (ucast index) + ucast count))
   }"

definition run_ladd :: "thread \<Rightarrow> outcome" where
  "run_ladd t =
     (let (b, t1) = popLong t; (a, t2) = popLong t1
      in Some (GotoLoop, pushLong t2 (a + b)))"

definition run_lneg :: "thread \<Rightarrow> outcome" where
  "run_lneg t = (let (v, t1) = popInt t in Some (GotoLoop, pushLong t1 (ucast (- v))))"

text \<open>A thread whose current code object holds the given bytes, for concrete runs.\<close>

definition threadOn :: "8 word list \<Rightarrow> thread" where
  "threadOn bytes = bootThread\<lparr> code := 1,
     heap := (\<lambda>_. None)(1 := Some (Code \<lparr> k_pool = 0, k_exceptionHandlerTable = 0,
       k_maxStack = 8, k_maxLocals = 8, k_body = bytes \<rparr>)) \<rparr>"

section \<open>More accessors, stores and allocation\<close>

definition classOf :: "thread \<Rightarrow> object \<Rightarrow> jclass option" where
  "classOf t c = (case heap t c of Some (Class k) \<Rightarrow> Some k | _ \<Rightarrow> None)"

definition fieldOf :: "thread \<Rightarrow> object \<Rightarrow> jfield option" where
  "fieldOf t f = (case heap t f of Some (Field k) \<Rightarrow> Some k | _ \<Rightarrow> None)"

definition methodOf :: "thread \<Rightarrow> object \<Rightarrow> jmethod option" where
  "methodOf t m = (case heap t m of Some (Method k) \<Rightarrow> Some k | _ \<Rightarrow> None)"

definition referenceOf :: "thread \<Rightarrow> object \<Rightarrow> jreference option" where
  "referenceOf t r = (case heap t r of Some (Reference k) \<Rightarrow> Some k | _ \<Rightarrow> None)"

definition arrayOf :: "thread \<Rightarrow> object \<Rightarrow> object list option" where
  "arrayOf t a = (case heap t a of Some (Array xs) \<Rightarrow> Some xs | _ \<Rightarrow> None)"

definition byteArrayOf :: "thread \<Rightarrow> object \<Rightarrow> 8 word list option" where
  "byteArrayOf t a = (case heap t a of Some (ByteArray xs) \<Rightarrow> Some xs | _ \<Rightarrow> None)"

definition handlerTableOf :: "thread \<Rightarrow> object \<Rightarrow> handler list option" where
  "handlerTableOf t a = (case heap t a of Some (HandlerTable xs) \<Rightarrow> Some xs | _ \<Rightarrow> None)"

definition intValue :: "thread \<Rightarrow> object \<Rightarrow> 32 word option" where
  "intValue t v = (case heap t v of Some (IntBox x) \<Rightarrow> Some x | _ \<Rightarrow> None)"

definition longValue :: "thread \<Rightarrow> object \<Rightarrow> 64 word option" where
  "longValue t v = (case heap t v of Some (LongBox x) \<Rightarrow> Some x | _ \<Rightarrow> None)"

text \<open>\<open>arrayBody(t, a, i)\<close> read, and written through \<open>set\<close>; an index out of range has no
  defined result.\<close>

definition arrayBody :: "thread \<Rightarrow> object \<Rightarrow> 32 word \<Rightarrow> object option" where
  "arrayBody t a i =
     (case arrayOf t a of
        Some xs \<Rightarrow> (if unat i < length xs then Some (xs ! unat i) else None)
      | None \<Rightarrow> None)"

definition setArrayBody :: "thread \<Rightarrow> object \<Rightarrow> 32 word \<Rightarrow> object \<Rightarrow> thread option" where
  "setArrayBody t a i v =
     (case arrayOf t a of
        Some xs \<Rightarrow> (if unat i < length xs
                    then Some (t\<lparr>heap := (heap t)(a := Some (Array (xs[unat i := v])))\<rparr>)
                    else None)
      | None \<Rightarrow> None)"

definition classInitializer :: "thread \<Rightarrow> object \<Rightarrow> object option" where
  "classInitializer t c = map_option c_initializer (classOf t c)"

definition setClassInitializer :: "thread \<Rightarrow> object \<Rightarrow> object \<Rightarrow> thread option" where
  "setClassInitializer t c v =
     (case classOf t c of
        Some k \<Rightarrow> Some (t\<lparr>heap := (heap t)(c := Some (Class (k\<lparr>c_initializer := v\<rparr>)))\<rparr>)
      | None \<Rightarrow> None)"

definition setReferenceClass :: "thread \<Rightarrow> object \<Rightarrow> object \<Rightarrow> thread option" where
  "setReferenceClass t r v =
     (case referenceOf t r of
        Some k \<Rightarrow> Some (t\<lparr>heap := (heap t)(r := Some (Reference (k\<lparr>r_class := v\<rparr>)))\<rparr>)
      | None \<Rightarrow> None)"

text \<open>
  The tests \<open>objectClass(t, o) == arrayBody(t, t->vm->types, Machine::ByteArrayType)\<close>
  and \<open>... Machine::ReferenceType\<close> of the resolver, on the object \<open>o\<close> points to.
\<close>

fun isByteArray :: "hobj \<Rightarrow> bool" where
  "isByteArray (ByteArray _) = True"
| "isByteArray _ = False"

fun isReference :: "hobj \<Rightarrow> bool" where
  "isReference (Reference _) = True"
| "isReference _ = False"

text \<open>\<open>objectClass(t, o)\<close>: the class word of an object.\<close>

definition objectClass :: "thread \<Rightarrow> object \<Rightarrow> object option" where
  "objectClass t obj =
     (case heap t obj of
        None \<Rightarrow> None
      | Some v \<Rightarrow> Some (case v of
          ByteArray _ \<Rightarrow> types t ByteArrayType
        | Array _ \<Rightarrow> types t ArrayType
        | Class _ \<Rightarrow> types t ClassType
        | Field _ \<Rightarrow> types t FieldType
        | Method _ \<Rightarrow> types t MethodType
        | Code _ \<Rightarrow> types t CodeType
        | HandlerTable _ \<Rightarrow> types t HandlerTableType
        | Reference _ \<Rightarrow> types t ReferenceType
        | IntBox _ \<Rightarrow> types t IntType
        | LongBox _ \<Rightarrow> types t LongType
        | Instance c \<Rightarrow> c))"

text \<open>
  Modelled from the spec: the managed heap allocates cells (heap.h and machine.h are not
  among the sources).  A new object takes the handle after the last one handed out, which
  is never null.  The \<open>make...\<close> functions of machine.h allocate a boxed int, a boxed
  long, or a throwable of a built-in class.
\<close>

definition allocate :: "thread \<Rightarrow> hobj \<Rightarrow> object \<times> thread" where
  "allocate t v =
     (let h = Suc (nextFree t) in (h, t\<lparr>heap := (heap t)(h := Some v), nextFree := h\<rparr>))"

definition makeInt :: "thread \<Rightarrow> 32 word \<Rightarrow> object \<times> thread" where
  "makeInt t v = allocate t (IntBox v)"

definition makeLong :: "thread \<Rightarrow> 64 word \<Rightarrow> object \<times> thread" where
  "makeLong t v = allocate t (LongBox v)"

definition makeThrowable :: "vmtype \<Rightarrow> thread \<Rightarrow> object \<times> thread" where
  "makeThrowable ty t = allocate t (Instance (types t ty))"

definition makeClassCastException :: "thread \<Rightarrow> object \<times> thread" where
  "makeClassCastException = makeThrowable ClassCastExceptionType"

definition makeNoSuchFieldError :: "thread \<Rightarrow> object \<times> thread" where
  "makeNoSuchFieldError = makeThrowable NoSuchFieldErrorType"

definition makeNoSuchMethodError :: "thread \<Rightarrow> object \<times> thread" where
  "makeNoSuchMethodError = makeThrowable NoSuchMethodErrorType"

definition makeNullPointerException :: "thread \<Rightarrow> object \<times> thread" where
  "makeNullPointerException = makeThrowable NullPointerExceptionType"

text \<open>
  Modelled from the spec: the monitor subsystem provides \<open>acquire\<close> and \<open>release\<close> on any
  object, with recursive ownership by a thread.
\<close>

definition acquire :: "thread \<Rightarrow> object \<Rightarrow> thread" where
  "acquire t obj = t\<lparr>monitors := (monitors t)(obj := monitors t obj + 1)\<rparr>"

definition release :: "thread \<Rightarrow> object \<Rightarrow> thread" where
  "release t obj = t\<lparr>monitors := (monitors t)(obj := monitors t obj - 1)\<rparr>"

text \<open>
  Modelled from the spec: the access flags of constants.h, with the values of the class
  file format.
\<close>

definition ACC_STATIC :: "16 word" where "ACC_STATIC = 0x0008"
definition ACC_SYNCHRONIZED :: "16 word" where "ACC_SYNCHRONIZED = 0x0020"
definition ACC_NATIVE :: "16 word" where "ACC_NATIVE = 0x0100"
definition ACC_INTERFACE :: "16 word" where "ACC_INTERFACE = 0x0200"

section \<open>Frames\<close>

text \<open>
  The \<open>memset\<close> of \<open>pushFrame\<close>: \<open>n\<close> slots from \<open>from\<close> on are zeroed.  Its length
  is \<open>locals - parameterFootprint\<close> in unsigned arithmetic, so with fewer locals than
  parameters it would run over the whole stack: \<open>pushFrame\<close> has no defined result then.
\<close>

definition zeroSlots :: "thread \<Rightarrow> 32 word \<Rightarrow> 32 word \<Rightarrow> thread" where
  "zeroSlots t from n = t\<lparr>stack := (\<lambda>i. if i - from < n then (IntTag, 0) else stack t i)\<rparr>"

definition pushFrame :: "thread \<Rightarrow> object \<Rightarrow> thread option" where
  "pushFrame t method = do {
     m \<leftarrow> methodOf t method;
     let t1 = (if 0 \<le>s frame t then pokeInt t (frame t + FrameIpOffset) (ip t) else t);
     let t2 = t1\<lparr>ip := 0\<rparr>;
     let parameterFootprint = m_parameterFootprint m;
     let base = sp t2 - parameterFootprint;
     (locals, t3) \<leftarrow>
       (if m_flags m AND ACC_NATIVE = 0 then do {
          k \<leftarrow> codeOf t2 (m_code m);
          if k_maxLocals k < parameterFootprint then None
          else Some (k_maxLocals k,
                 zeroSlots (t2\<lparr>code := m_code m\<rparr>) (base + parameterFootprint)
                   (k_maxLocals k - parameterFootprint))
        } else Some (parameterFootprint, t2));
     let frame' = base + locals;
     let t4 = (pokeInt t3 (frame' + FrameNextOffset) (frame t3))\<lparr>frame := frame'\<rparr>;
     let t5 = t4\<lparr>sp := frame' + FrameFootprint\<rparr>;
     let t6 = pokeInt t5 (frame' + FrameBaseOffset) base;
     let t7 = pokeObject t6 (frame' + FrameMethodOffset) method;
     let t8 = pokeInt t7 (frame t7 + FrameIpOffset) 0;
     if m_flags m AND ACC_SYNCHRONIZED \<noteq> 0 then
       (if m_flags m AND ACC_STATIC \<noteq> 0 then Some (acquire t8 (m_class m))
        else Some (acquire t8 (peekObject t8 base)))
     else Some t8
   }"

definition popFrame :: "thread \<Rightarrow> thread option" where
  "popFrame t = do {
     let method = frameMethod t (frame t);
     m \<leftarrow> methodOf t method;
     let t1 = (if m_flags m AND ACC_SYNCHRONIZED \<noteq> 0 then
                 (if m_flags m AND ACC_STATIC \<noteq> 0 then release t (m_class m)
                  else release t (peekObject t (frameBase t (frame t))))
               else t);
     let t2 = t1\<lparr>sp := frameBase t1 (frame t1)\<rparr>;
     let t3 = t2\<lparr>frame := frameNext t2 (frame t2)\<rparr>;
     if 0 \<le>s frame t3 then do {
       m' \<leftarrow> methodOf t3 (frameMethod t3 (frame t3));
       Some (t3\<lparr>code := m_code m', ip := frameIp t3 (frame t3)\<rparr>)
     } else Some (t3\<lparr>code := 0, ip := 0\<rparr>)
   }"

definition run_return :: "thread \<Rightarrow> outcome" where
  "run_return t = do {
     t1 \<leftarrow> popFrame t;
     if 0 \<le>s frame t1 then Some (GotoLoop, t1) else Some (Return 0, t1)
   }"

section \<open>instanceOf\<close>

fun itableHas :: "object list \<Rightarrow> object \<Rightarrow> bool" where
  "itableHas [] c = False"
| "itableHas [x] c = (x = c)"
| "itableHas (x # y # rest) c = (if x = c then True else itableHas rest c)"

partial_function (option) implementsWalk :: "thread \<Rightarrow> object \<Rightarrow> object \<Rightarrow> bool option" where
  "implementsWalk t cls oc =
     (if oc = 0 then Some False
      else do {
        k \<leftarrow> classOf t oc;
        itable \<leftarrow> arrayOf t (c_interfaceTable k);
        if itableHas itable cls then Some True else implementsWalk t cls (c_super k)
      })"

partial_function (option) extendsWalk :: "thread \<Rightarrow> object \<Rightarrow> object \<Rightarrow> bool option" where
  "extendsWalk t cls oc =
     (if oc = 0 then Some False
      else if oc = cls then Some True
      else do { k \<leftarrow> classOf t oc; extendsWalk t cls (c_super k) })"

definition instanceOf :: "thread \<Rightarrow> object \<Rightarrow> object \<Rightarrow> bool option" where
  "instanceOf t cls obj =
     (if obj = 0 then Some False
      else do {
        k \<leftarrow> classOf t cls;
        oc \<leftarrow> objectClass t obj;
        if c_flags k AND ACC_INTERFACE \<noteq> 0 then implementsWalk t cls oc
        else extendsWalk t cls oc
      })"

section \<open>Constant-pool resolution\<close>

text \<open>
  Modelled from the spec: \<open>resolveClass(t, name)\<close> of machine.cpp, which asks the class
  finder for the class named by a byte array; when there is none, the result is null and
  an error is pending.
\<close>

definition resolveClassByName :: "thread \<Rightarrow> object \<Rightarrow> (object \<times> thread) option" where
  "resolveClassByName t name = do {
     s \<leftarrow> byteArrayOf t name;
     if finder t s = 0 then
       (let (e, t1) = makeThrowable NoClassDefFoundErrorType t in Some (0, t1\<lparr>exception := e\<rparr>))
     else Some (finder t s, t)
   }"

definition resolveClass :: "thread \<Rightarrow> object \<Rightarrow> 32 word \<Rightarrow> (object \<times> thread) option" where
  "resolveClass t pool index = do {
     obj \<leftarrow> arrayBody t pool index;
     v \<leftarrow> heap t obj;
     if isByteArray v then do {
       (c, t1) \<leftarrow> resolveClassByName t obj;
       if exception t1 \<noteq> 0 then Some (0, t1)
       else do { t2 \<leftarrow> setArrayBody t1 pool index c; Some (c, t2) }
     }
     else Some (obj, t)
   }"

text \<open>\<open>resolveClass(t, container, referenceClass)\<close>: the class slot of a reference.\<close>

definition resolveReferenceClass :: "thread \<Rightarrow> object \<Rightarrow> (object \<times> thread) option" where
  "resolveReferenceClass t container = do {
     r \<leftarrow> referenceOf t container;
     v \<leftarrow> heap t (r_class r);
     if isByteArray v then do {
       (c, t1) \<leftarrow> resolveClassByName t (r_class r);
       if exception t1 \<noteq> 0 then Some (0, t1)
       else do { t2 \<leftarrow> setReferenceClass t1 container c; Some (c, t2) }
     }
     else Some (r_class r, t)
   }"

text \<open>\<open>strcmp(a, b) == 0\<close> on the bodies of two byte arrays; reading past the end of one
  has no defined result.\<close>

fun strcmpEq :: "8 word list \<Rightarrow> 8 word list \<Rightarrow> bool option" where
  "strcmpEq [] _ = None"
| "strcmpEq (a # as) [] = None"
| "strcmpEq (a # as) (b # bs) =
     (if a \<noteq> b then Some False else if a = 0 then Some True else strcmpEq as bs)"

text \<open>
  \<open>find\<close> of run.cpp is \<open>findInTable\<close> here.  Its loop over the table (\<open>findLoop\<close>, on
  the entries from index \<open>i\<close> on) compares the name and then the spec of each entry with
  those of the reference, and returns the first entry that has both, or null.
  \<open>nameSpec\<close> stands for the two accessors passed to \<open>find\<close>.
\<close>

fun findLoop :: "thread \<Rightarrow> (thread \<Rightarrow> object \<Rightarrow> (object \<times> object) option)
    \<Rightarrow> object \<Rightarrow> object \<Rightarrow> object list \<Rightarrow> object option" where
  "findLoop t nameSpec n s [] = Some 0"
| "findLoop t nameSpec n s (x # xs) = do {
     (xn, xs') \<leftarrow> nameSpec t x;
     xnb \<leftarrow> byteArrayOf t xn;
     nb \<leftarrow> byteArrayOf t n;
     sameName \<leftarrow> strcmpEq xnb nb;
     sameSpec \<leftarrow> (if sameName
                  then do { xsb \<leftarrow> byteArrayOf t xs'; sb \<leftarrow> byteArrayOf t s; strcmpEq xsb sb }
                  else Some False);
     if sameSpec then Some x else findLoop t nameSpec n s xs
   }"

definition findInTable ::
  "thread \<Rightarrow> (thread \<Rightarrow> object \<Rightarrow> (object \<times> object) option) \<Rightarrow> object \<Rightarrow> object
    \<Rightarrow> object option" where
  "findInTable t nameSpec table reference = do {
     r \<leftarrow> referenceOf t reference;
     xs \<leftarrow> arrayOf t table;
     findLoop t nameSpec (r_name r) (r_spec r) xs
   }"

definition fieldNameSpec :: "thread \<Rightarrow> object \<Rightarrow> (object \<times> object) option" where
  "fieldNameSpec t f = map_option (\<lambda>k. (f_name k, f_spec k)) (fieldOf t f)"

definition methodNameSpec :: "thread \<Rightarrow> object \<Rightarrow> (object \<times> object) option" where
  "methodNameSpec t m = map_option (\<lambda>k. (m_name k, m_spec k)) (methodOf t m)"

definition findFieldInClass :: "thread \<Rightarrow> object \<Rightarrow> object \<Rightarrow> object option" where
  "findFieldInClass t cls reference = do {
     k \<leftarrow> classOf t cls;
     findInTable t fieldNameSpec (c_fieldTable k) reference
   }"

definition findMethodInClass :: "thread \<Rightarrow> object \<Rightarrow> object \<Rightarrow> object option" where
  "findMethodInClass t cls reference = do {
     k \<leftarrow> classOf t cls;
     findInTable t methodNameSpec (c_methodTable k) reference
   }"

text \<open>The loop of \<open>resolve\<close> up the superclass chain: it stops at the first class in
  which \<open>find\<close> has a result, or at the end of the chain.\<close>

partial_function (option) findInChain ::
  "thread \<Rightarrow> (thread \<Rightarrow> object \<Rightarrow> object \<Rightarrow> object option) \<Rightarrow> object \<Rightarrow> object
    \<Rightarrow> object option" where
  "findInChain t finder' cls reference =
     (if cls = 0 then Some 0
      else do {
        r \<leftarrow> finder' t cls reference;
        k \<leftarrow> classOf t cls;
        if r \<noteq> 0 then Some r else findInChain t finder' (c_super k) reference
      })"

definition resolve ::
  "thread \<Rightarrow> object \<Rightarrow> 32 word \<Rightarrow> (thread \<Rightarrow> object \<Rightarrow> object \<Rightarrow> object option)
    \<Rightarrow> (thread \<Rightarrow> object \<times> thread) \<Rightarrow> (object \<times> thread) option" where
  "resolve t pool index finder' makeError = do {
     obj \<leftarrow> arrayBody t pool index;
     v \<leftarrow> heap t obj;
     if isReference v then do {
       (cls, t1) \<leftarrow> resolveReferenceClass t obj;
       if exception t1 \<noteq> 0 then Some (0, t1)
       else do {
         reference \<leftarrow> arrayBody t1 pool index;
         found \<leftarrow> findInChain t1 finder' cls reference;
         let t2 = (if found = 0
                   then (let (e, t') = makeError t1 in t'\<lparr>exception := e\<rparr>) else t1);
         t3 \<leftarrow> setArrayBody t2 pool index found;
         Some (found, t3)
       }
     }
     else Some (obj, t)
   }"

definition resolveField :: "thread \<Rightarrow> object \<Rightarrow> 32 word \<Rightarrow> (object \<times> thread) option" where
  "resolveField t pool index = resolve t pool index findFieldInClass makeNoSuchFieldError"

definition resolveMethod :: "thread \<Rightarrow> object \<Rightarrow> 32 word \<Rightarrow> (object \<times> thread) option" where
  "resolveMethod t pool index = resolve t pool index findMethodInClass makeNoSuchMethodError"

definition index16 :: "8 word \<Rightarrow> 8 word \<Rightarrow> 16 word" where
  "index16 index1 index2 = push_bit 8 (ucast index1) OR ucast index2"

section \<open>Cases of the dispatch switch: type checks and static fields\<close>

definition run_checkcast :: "thread \<Rightarrow> outcome" where
  "run_checkcast t = do {
     index1 \<leftarrow> codeBody t (code t) (ip t);
     index2 \<leftarrow> codeBody t (code t) (ip t + 1);
     let t1 = t\<lparr>ip := ip t + 2\<rparr>;
     if peekObject t1 (sp t1 - 1) \<noteq> 0 then do {
       k \<leftarrow> codeOf t1 (code t1);
       (cls, t2) \<leftarrow> resolveClass t1 (k_pool k) (ucast (index16 index1 index2) - 1);
       if exception t2 \<noteq> 0 then Some (GotoThrow, t2)
       else do {
         b \<leftarrow> instanceOf t2 cls (peekObject t2 (sp t2 - 1));
         if \<not> b then (let (e, t3) = makeClassCastException t2
                       in Some (GotoThrow, t3\<lparr>exception := e\<rparr>))
         else Some (GotoLoop, t2)
       }
     } else Some (GotoLoop, t1)
   }"

definition run_instanceof :: "thread \<Rightarrow> outcome" where
  "run_instanceof t = do {
     index1 \<leftarrow> codeBody t (code t) (ip t);
     index2 \<leftarrow> codeBody t (code t) (ip t + 1);
     let t1 = t\<lparr>ip := ip t + 2\<rparr>;
     if peekObject t1 (sp t1 - 1) \<noteq> 0 then do {
       k \<leftarrow> codeOf t1 (code t1);
       (cls, t2) \<leftarrow> resolveClass t1 (k_pool k) (ucast (index16 index1 index2) - 1);
       if exception t2 \<noteq> 0 then Some (GotoThrow, t2)
       else do {
         b \<leftarrow> instanceOf t2 cls (peekObject t2 (sp t2 - 1));
         if b then Some (GotoLoop, pushInt t2 1) else Some (GotoLoop, pushInt t2 0)
       }
     } else Some (GotoLoop, pushInt t1 0)
   }"

text \<open>
  The groups of the \<open>switch (fieldCode(t, field))\<close> statements: the codes served by the
  int accessors, and those served by the long accessors.  \<open>ObjectField\<close> has a case of
  its own, and any other code aborts.
\<close>

fun intField :: "fieldcode \<Rightarrow> bool" where
  "intField ByteField = True"
| "intField BooleanField = True"
| "intField CharField = True"
| "intField ShortField = True"
| "intField FloatField = True"
| "intField IntField = True"
| "intField _ = False"

fun longField :: "fieldcode \<Rightarrow> bool" where
  "longField DoubleField = True"
| "longField LongField = True"
| "longField _ = False"

text \<open>
  The first half of \<open>getstatic\<close> and \<open>putstatic\<close>: the field is resolved and, when its
  class still has an initializer, the initializer is taken out of the class and made the
  target of the invoke transition.  \<open>Inl\<close> is the outcome when the case ends here,
  \<open>Inr\<close> the field and the thread when it goes on to the access.
\<close>

definition staticFieldEntry :: "thread \<Rightarrow> ((control \<times> thread) + (object \<times> thread)) option" where
  "staticFieldEntry t = do {
     index1 \<leftarrow> codeBody t (code t) (ip t);
     index2 \<leftarrow> codeBody t (code t) (ip t + 1);
     let t1 = t\<lparr>ip := ip t + 2\<rparr>;
     k \<leftarrow> codeOf t1 (code t1);
     (field, t2) \<leftarrow> resolveField t1 (k_pool k) (ucast (index16 index1 index2) - 1);
     if exception t2 \<noteq> 0 then Some (Inl (GotoThrow, t2))
     else do {
       f \<leftarrow> fieldOf t2 field;
       clinit \<leftarrow> classInitializer t2 (f_class f);
       if clinit \<noteq> 0 then do {
         t3 \<leftarrow> setClassInitializer t2 (f_class f) 0;
         Some (Inl (GotoInvoke, t3\<lparr>code := clinit, ip := ip t3 - 3\<rparr>))
       } else Some (Inr (field, t2))
     }
   }"

definition run_getstatic :: "thread \<Rightarrow> outcome" where
  "run_getstatic t = do {
     e \<leftarrow> staticFieldEntry t;
     case e of
       Inl out \<Rightarrow> Some out
     | Inr (field, t2) \<Rightarrow> do {
         f \<leftarrow> fieldOf t2 field;
         kl \<leftarrow> classOf t2 (f_class f);
         v \<leftarrow> arrayBody t2 (c_staticTable kl) (f_offset f);
         if intField (f_code f) then do { x \<leftarrow> intValue t2 v; Some (GotoLoop, pushInt t2 x) }
         else if longField (f_code f)
           then do { x \<leftarrow> longValue t2 v; Some (GotoLoop, pushLong t2 x) }
         else if f_code f = ObjectField then Some (GotoLoop, pushObject t2 v)
         else None
       }
   }"

definition run_putstatic :: "thread \<Rightarrow> outcome" where
  "run_putstatic t = do {
     e \<leftarrow> staticFieldEntry t;
     case e of
       Inl out \<Rightarrow> Some out
     | Inr (field, t2) \<Rightarrow> do {
         f \<leftarrow> fieldOf t2 field;
         (v, t3) \<leftarrow>
           (if intField (f_code f) then (let (x, t') = popInt t2 in Some (makeInt t' x))
            else if longField (f_code f) then (let (x, t') = popLong t2 in Some (makeLong t' x))
            else if f_code f = ObjectField then Some (popObject t2)
            else None);
         f' \<leftarrow> fieldOf t3 field;
         kl \<leftarrow> classOf t3 (f_class f');
         t4 \<leftarrow> setArrayBody t3 (c_staticTable kl) (f_offset f') v;
         Some (GotoLoop, t4)
       }
   }"

section \<open>Cases of the dispatch switch: invocation\<close>

text \<open>\<open>findMethod\<close>: the entry of the virtual table of a class at the offset of a
  method.\<close>

definition findMethod :: "thread \<Rightarrow> object \<Rightarrow> object \<Rightarrow> object option" where
  "findMethod t method cls = do {
     m \<leftarrow> methodOf t method;
     k \<leftarrow> classOf t cls;
     arrayBody t (c_virtualTable k) (m_offset m)
   }"

text \<open>
  \<open>invokevirtual\<close>.  \<open>cls\<close> is the class of the receiver.  When it has no virtual
  table yet, it is resolved by its name and its initializer slot is read; a non-null
  initializer is made the target of the invoke transition, after the write
  \<open>set(t, classInitializer(t, methodClass(t, method)), 0)\<close>, which clears the
  initializer slot of the class of the resolved method.  \<open>Inl\<close> is the outcome when
  the case ends inside the block of the null virtual table, \<open>Inr\<close> the thread when it
  goes on to \<open>findMethod\<close>.
\<close>

definition run_invokevirtual :: "thread \<Rightarrow> outcome" where
  "run_invokevirtual t = do {
     index1 \<leftarrow> codeBody t (code t) (ip t);
     index2 \<leftarrow> codeBody t (code t) (ip t + 1);
     let t1 = t\<lparr>ip := ip t + 2\<rparr>;
     k \<leftarrow> codeOf t1 (code t1);
     (method, t2) \<leftarrow> resolveMethod t1 (k_pool k) (ucast (index16 index1 index2) - 1);
     if exception t2 \<noteq> 0 then Some (GotoThrow, t2)
     else do {
       m \<leftarrow> methodOf t2 method;
       if peekObject t2 (sp t2 - m_parameterFootprint m) \<noteq> 0 then do {
         cls \<leftarrow> objectClass t2 (peekObject t2 (sp t2 - m_parameterFootprint m));
         kc \<leftarrow> classOf t2 cls;
         r \<leftarrow> (if c_virtualTable kc = 0 then do {
                 (c, t3) \<leftarrow> resolveClassByName t2 (c_name kc);
                 if exception t3 \<noteq> 0 then Some (Inl (GotoThrow, t3))
                 else do {
                   clinit \<leftarrow> classInitializer t3 cls;
                   if clinit \<noteq> 0 then do {
                     m' \<leftarrow> methodOf t3 method;
                     t4 \<leftarrow> setClassInitializer t3 (m_class m') 0;
                     Some (Inl (GotoInvoke, t4\<lparr>code := clinit, ip := ip t4 - 3\<rparr>))
                   } else Some (Inr t3)
                 }
               } else Some (Inr t2));
         case r of
           Inl out \<Rightarrow> Some out
         | Inr t5 \<Rightarrow> do {
             target \<leftarrow> findMethod t5 method cls;
             Some (GotoInvoke, t5\<lparr>code := target\<rparr>)
           }
       }
       else (let (e, t3) = makeNullPointerException t2
             in Some (GotoThrow, t3\<lparr>exception := e\<rparr>))
     }
   }"

section \<open>The exception unwinder\<close>

text \<open>
  The loop over the handlers of one frame (the label \<open>throw_\<close> of \<open>run\<close>), on the
  handlers from index \<open>i\<close> on.  \<open>Inl\<close>: a handler was entered and control goes back to
  the dispatch loop; \<open>Inr\<close>: no handler of the table applies.  \<open>handlerCatchType\<close> is
  the value of the local \<open>catchType\<close> when it is tested: null for a handler with no catch
  type, else the constant the handler names, resolved by name.
\<close>

definition handlerCatchType :: "thread \<Rightarrow> handler \<Rightarrow> (object \<times> thread) option" where
  "handlerCatchType t eh = do {
     k \<leftarrow> codeOf t (code t);
     catchType0 \<leftarrow> (if eh_catchType eh \<noteq> 0
                    then arrayBody t (k_pool k) (ucast (eh_catchType eh) - 1)
                    else Some 0);
     if catchType0 \<noteq> 0 then resolveClassByName t catchType0 else Some (0, t)
   }"

fun scanHandlers :: "thread \<Rightarrow> handler list \<Rightarrow> (thread + thread) option" where
  "scanHandlers t [] = Some (Inr t)"
| "scanHandlers t (eh # ehs) =
     (if ucast (eh_start eh) \<le> frameIp t (frame t) - 1
         \<and> frameIp t (frame t) - 1 < ucast (eh_end eh)
      then do {
        (catchType, t1) \<leftarrow> handlerCatchType t eh;
        caught \<leftarrow> (if catchType = 0 then Some True
                   else instanceOf t1 catchType (exception t1));
        if caught then
          Some (Inl ((pushObject (t1\<lparr>sp := frame t1 + FrameFootprint, ip := ucast (eh_ip eh)\<rparr>)
                       (exception t1))\<lparr>exception := 0\<rparr>))
        else scanHandlers t1 ehs
      }
      else scanHandlers t ehs)"

partial_function (option) unwind :: "thread \<Rightarrow> (control \<times> thread) option" where
  "unwind t =
     (if 0 \<le>s frame t then do {
        m \<leftarrow> methodOf t (frameMethod t (frame t));
        if m_flags m AND ACC_NATIVE \<noteq> 0 then Some (Return 0, t)
        else do {
          let t1 = t\<lparr>code := m_code m\<rparr>;
          k \<leftarrow> codeOf t1 (code t1);
          r \<leftarrow> (if k_exceptionHandlerTable k \<noteq> 0 then do {
                  hs \<leftarrow> handlerTableOf t1 (k_exceptionHandlerTable k);
                  scanHandlers t1 hs
                } else Some (Inr t1));
          case r of
            Inl t2 \<Rightarrow> Some (GotoLoop, t2)
          | Inr t2 \<Rightarrow> unwind (t2\<lparr>frame := frameNext t2 (frame t2)\<rparr>)
        }
      } else Some (Uncaught, t))"

definition run_throw :: "thread \<Rightarrow> outcome" where
  "run_throw t = unwind (pokeInt t (frame t + FrameIpOffset) (ip t))"

section \<open>Concrete threads\<close>

text \<open>
  A thread about to run \<open>checkcast #1\<close> (or \<open>instanceof #1\<close>) at address 0 with the null
  reference on top of the stack; constant 1 of the pool names a class \<open>X\<close> that the class
  finder does not know.
\<close>

definition castThread :: thread where
  "castThread = (pushObject (threadOn [0xC0, 0, 1]) 0)\<lparr> ip := 1,
     heap := (\<lambda>_. None)(
       1 := Some (Code \<lparr> k_pool = 2, k_exceptionHandlerTable = 0, k_maxStack = 8,
              k_maxLocals = 8, k_body = [0xC0, 0, 1] \<rparr>),
       2 := Some (Array [3]),
       3 := Some (ByteArray [0x58, 0])),
     nextFree := 3 \<rparr>"

section \<open>Predicates on threads\<close>

text \<open>
  The initializer slot of the class \<open>K\<close> is null, and \<open>K\<close> is a handle the allocator has
  handed out (so no later allocation takes it).
\<close>

definition initializerCleared :: "thread \<Rightarrow> object \<Rightarrow> bool" where
  "initializerCleared t K = (classInitializer t K = Some 0 \<and> K \<le> nextFree t)"

text \<open>
  Two threads agree on everything but the heap, the allocator and the pending exception.
\<close>

definition sameRegisters :: "thread \<Rightarrow> thread \<Rightarrow> bool" where
  "sameRegisters t t' =
     (ip t' = ip t \<and> sp t' = sp t \<and> frame t' = frame t \<and> code t' = code t
      \<and> stack t' = stack t \<and> monitors t' = monitors t \<and> types t' = types t
      \<and> finder t' = finder t)"

section \<open>Concrete threads: static fields\<close>

text \<open>
  A thread about to run \<open>getstatic #1\<close> (or \<open>putstatic #1\<close>) at address 0.  Constant 1
  of the pool is a reference to the int field \<open>x\<close> of the class \<open>K\<close> (object 7), whose
  initializer is the method 11.  \<open>staticThreadAgain\<close> is the thread when the same opcode
  runs again: the constant is resolved and the initializer slot of \<open>K\<close> is null.
\<close>

definition staticHeap :: "object \<Rightarrow> hobj option" where
  "staticHeap = (\<lambda>_. None)(
       1 := Some (Code \<lparr> k_pool = 2, k_exceptionHandlerTable = 0, k_maxStack = 8,
              k_maxLocals = 8, k_body = [0xB2, 0, 1] \<rparr>),
       2 := Some (Array [3]),
       3 := Some (Reference \<lparr> r_class = 4, r_name = 5, r_spec = 6 \<rparr>),
       4 := Some (ByteArray [0x4B, 0]),
       5 := Some (ByteArray [0x78, 0]),
       6 := Some (ByteArray [0x49, 0]),
       7 := Some (Class \<lparr> c_flags = 0, c_name = 4, c_super = 0, c_interfaceTable = 0,
              c_virtualTable = 0, c_fieldTable = 8, c_methodTable = 0, c_staticTable = 9,
              c_initializer = 11 \<rparr>),
       8 := Some (Array [10]),
       9 := Some (Array [12]),
       10 := Some (Field \<lparr> f_class = 7, f_code = IntField, f_offset = 0, f_name = 5,
              f_spec = 6 \<rparr>),
       11 := Some (Method \<lparr> m_flags = ACC_STATIC, m_class = 7, m_code = 13, m_name = 5,
              m_spec = 6, m_parameterFootprint = 0, m_offset = 0 \<rparr>),
       12 := Some (IntBox 42),
       13 := Some (Code \<lparr> k_pool = 2, k_exceptionHandlerTable = 0, k_maxStack = 0,
              k_maxLocals = 0, k_body = [0xB1] \<rparr>))"

definition staticThread :: thread where
  "staticThread = bootThread\<lparr> ip := 1, code := 1, heap := staticHeap, nextFree := 13,
     finder := (\<lambda>n. if n = [0x4B, 0] then 7 else 0) \<rparr>"

definition staticThreadAgain :: thread where
  "staticThreadAgain = staticThread\<lparr> heap := staticHeap(
       2 := Some (Array [10]),
       3 := Some (Reference \<lparr> r_class = 7, r_name = 5, r_spec = 6 \<rparr>),
       7 := Some (Class \<lparr> c_flags = 0, c_name = 4, c_super = 0, c_interfaceTable = 0,
              c_virtualTable = 0, c_fieldTable = 8, c_methodTable = 0, c_staticTable = 9,
              c_initializer = 0 \<rparr>)) \<rparr>"

section \<open>Resolved constant-pool slots\<close>

text \<open>The objects a resolved constant-pool slot points to: a class, a field or a method.\<close>

fun resolvedEntity :: "hobj \<Rightarrow> bool" where
  "resolvedEntity (Class _) = True"
| "resolvedEntity (Field _) = True"
| "resolvedEntity (Method _) = True"
| "resolvedEntity _ = False"

text \<open>
  Slot \<open>j\<close> of the pool \<open>p\<close> holds the handle \<open>c\<close> of a resolved entity; the pool and the
  entity are handles the allocator has handed out.
\<close>

definition slotResolved :: "thread \<Rightarrow> object \<Rightarrow> 32 word \<Rightarrow> object \<Rightarrow> bool" where
  "slotResolved t p j c =
     (arrayBody t p j = Some c \<and> map_option resolvedEntity (heap t c) = Some True
      \<and> p \<le> nextFree t \<and> c \<le> nextFree t)"


section \<open>Concrete threads: frames and handlers\<close>

text \<open>
  A thread in the frame of the static method \<open>A\<close> (object 1, frame at slot 0), about to
  invoke the synchronized instance method \<open>B\<close> (object 5) on the receiver 11, which it
  has pushed; the invoke instruction is at address 1 and \<open>ip\<close> is past its operands.  The
  code of \<open>A\<close> has two handlers: a catch-all for the addresses 0 and 1, and a handler for
  the class \<open>T\<close> (object 8, constant 1 of the pool) for the addresses 0 to 7, at address
  20.  Object 12 is an instance of the class \<open>E\<close> (object 9), a subclass of \<open>T\<close>.
\<close>

definition callHeap :: "object \<Rightarrow> hobj option" where
  "callHeap = (\<lambda>_. None)(
       1 := Some (Method \<lparr> m_flags = ACC_STATIC, m_class = 7, m_code = 2, m_name = 10,
              m_spec = 10, m_parameterFootprint = 0, m_offset = 0 \<rparr>),
       2 := Some (Code \<lparr> k_pool = 3, k_exceptionHandlerTable = 4, k_maxStack = 2,
              k_maxLocals = 0, k_body = [0x2A, 0xB6, 0, 2, 0xB1] \<rparr>),
       3 := Some (Array [10]),
       4 := Some (HandlerTable [
              \<lparr> eh_start = 0, eh_end = 2, eh_ip = 30, eh_catchType = 0 \<rparr>,
              \<lparr> eh_start = 0, eh_end = 8, eh_ip = 20, eh_catchType = 1 \<rparr>]),
       5 := Some (Method \<lparr> m_flags = ACC_SYNCHRONIZED, m_class = 7, m_code = 6, m_name = 10,
              m_spec = 10, m_parameterFootprint = 1, m_offset = 0 \<rparr>),
       6 := Some (Code \<lparr> k_pool = 3, k_exceptionHandlerTable = 0, k_maxStack = 1,
              k_maxLocals = 1, k_body = [0xBF] \<rparr>),
       7 := Some (Class \<lparr> c_flags = 0, c_name = 10, c_super = 0, c_interfaceTable = 0,
              c_virtualTable = 0, c_fieldTable = 0, c_methodTable = 0, c_staticTable = 0,
              c_initializer = 0 \<rparr>),
       8 := Some (Class \<lparr> c_flags = 0, c_name = 10, c_super = 0, c_interfaceTable = 0,
              c_virtualTable = 0, c_fieldTable = 0, c_methodTable = 0, c_staticTable = 0,
              c_initializer = 0 \<rparr>),
       9 := Some (Class \<lparr> c_flags = 0, c_name = 10, c_super = 8, c_interfaceTable = 0,
              c_virtualTable = 0, c_fieldTable = 0, c_methodTable = 0, c_staticTable = 0,
              c_initializer = 0 \<rparr>),
       10 := Some (ByteArray [0x54, 0]),
       11 := Some (Instance 7),
       12 := Some (Instance 9))"

definition callerThread :: thread where
  "callerThread = bootThread\<lparr> ip := 4, sp := 5, frame := 0, code := 2,
     stack := (\<lambda>_. (IntTag, 0))(1 := (IntTag, 4294967295), 2 := (ObjectTag, 1),
       4 := (ObjectTag, 11)),
     heap := callHeap, nextFree := 12,
     finder := (\<lambda>n. if n = [0x54, 0] then 8 else 0) \<rparr>"

text \<open>
  The thread after the invocation of \<open>B\<close> (frame at slot 5, the monitor of the receiver
  acquired), when the \<open>athrow\<close> at address 0 of \<open>B\<close> has made object 12 the pending
  exception.
\<close>

definition thrownThread :: thread where
  "thrownThread = callerThread\<lparr> ip := 1, sp := 9, frame := 5, code := 6, exception := 12,
     stack := (\<lambda>_. (IntTag, 0))(1 := (IntTag, 4294967295), 2 := (ObjectTag, 1),
       3 := (IntTag, 4), 4 := (ObjectTag, 11), 5 := (IntTag, 4), 7 := (ObjectTag, 5)),
     monitors := (\<lambda>_. 0)(11 := 1) \<rparr>"

text \<open>
  The same thread when the exception thrown in \<open>B\<close> is the object 11, an instance of
  the class 7, which is not a subclass of \<open>T\<close>: \<open>strangerThread\<close>.
  \<open>unresolvedThread\<close> is that thread on a machine whose class finder does not know
  \<open>T\<close>.
\<close>

definition strangerThread :: thread where
  "strangerThread = thrownThread\<lparr> exception := 11 \<rparr>"

definition unresolvedThread :: thread where
  "unresolvedThread = strangerThread\<lparr> finder := (\<lambda>_. 0) \<rparr>"

section \<open>Concrete threads: a virtual call on an instance of an uninitialized class\<close>

text \<open>
  A thread about to run \<open>invokevirtual #1\<close> at address 0 of the code 1, whose address 3
  holds \<open>getstatic #2\<close>.  Constant 1 of the pool is a reference to the method \<open>m\<close>
  (object 12) of the class \<open>M\<close> (object 7), whose initializer is the method 10;
  constant 2 is a reference to the int field \<open>x\<close> (object 22) of the class \<open>K\<close>
  (object 13), a subclass of \<open>M\<close> that has no virtual table yet and whose initializer
  is the method 19.  The receiver, on top of the stack, is object 23, an instance of
  \<open>K\<close>.
\<close>

definition virtualHeap :: "object \<Rightarrow> hobj option" where
  "virtualHeap = (\<lambda>_. None)(
       1 := Some (Code \<lparr> k_pool = 2, k_exceptionHandlerTable = 0, k_maxStack = 8,
              k_maxLocals = 8, k_body = [0xB6, 0, 1, 0xB2, 0, 2] \<rparr>),
       2 := Some (Array [3, 14]),
       3 := Some (Reference \<lparr> r_class = 4, r_name = 5, r_spec = 6 \<rparr>),
       4 := Some (ByteArray [0x4D, 0]),
       5 := Some (ByteArray [0x6D, 0]),
       6 := Some (ByteArray [0x28, 0x29, 0x56, 0]),
       7 := Some (Class \<lparr> c_flags = 0, c_name = 4, c_super = 0, c_interfaceTable = 0,
              c_virtualTable = 9, c_fieldTable = 11, c_methodTable = 8, c_staticTable = 0,
              c_initializer = 10 \<rparr>),
       8 := Some (Array [12]),
       9 := Some (Array [12]),
       10 := Some (Method \<lparr> m_flags = ACC_STATIC, m_class = 7, m_code = 24, m_name = 5,
              m_spec = 6, m_parameterFootprint = 0, m_offset = 0 \<rparr>),
       11 := Some (Array []),
       12 := Some (Method \<lparr> m_flags = 0, m_class = 7, m_code = 24, m_name = 5,
              m_spec = 6, m_parameterFootprint = 1, m_offset = 0 \<rparr>),
       13 := Some (Class \<lparr> c_flags = 0, c_name = 15, c_super = 7, c_interfaceTable = 0,
              c_virtualTable = 0, c_fieldTable = 16, c_methodTable = 17, c_staticTable = 18,
              c_initializer = 19 \<rparr>),
       14 := Some (Reference \<lparr> r_class = 15, r_name = 20, r_spec = 21 \<rparr>),
       15 := Some (ByteArray [0x4B, 0]),
       16 := Some (Array [22]),
       17 := Some (Array []),
       18 := Some (Array [0]),
       19 := Some (Method \<lparr> m_flags = ACC_STATIC, m_class = 13, m_code = 24, m_name = 5,
              m_spec = 6, m_parameterFootprint = 0, m_offset = 0 \<rparr>),
       20 := Some (ByteArray [0x78, 0]),
       21 := Some (ByteArray [0x49, 0]),
       22 := Some (Field \<lparr> f_class = 13, f_code = IntField, f_offset = 0, f_name = 20,
              f_spec = 21 \<rparr>),
       23 := Some (Instance 13),
       24 := Some (Code \<lparr> k_pool = 2, k_exceptionHandlerTable = 0, k_maxStack = 0,
              k_maxLocals = 0, k_body = [0xB1] \<rparr>))"

definition virtualThread :: thread where
  "virtualThread = bootThread\<lparr> ip := 1, sp := 1, code := 1,
     stack := (\<lambda>_. (IntTag, 0))(0 := (ObjectTag, 23)),
     heap := virtualHeap, nextFree := 24,
     finder := (\<lambda>n. if n = [0x4D, 0] then 7 else if n = [0x4B, 0] then 13 else 0) \<rparr>"

section \<open>Properties: constants, arithmetic and branches\<close>

lemmas stack_defs = pushInt_def pokeInt_def popInt_def peekInt_def pushLong_def popLong_def
  pushObject_def pokeObject_def popObject_def peekObject_def

lemmas concrete_defs = bootThread_def threadOn_def codeBody_def codeOf_def Let_def
  localInt_def setLocalInt_def frameBase_def FrameBaseOffset_def

lemma ucast_minus_one_32_64: "(ucast (- 1 :: 32 word) :: 64 word) = 0xFFFFFFFF"
  by (simp add: unsigned_minus_1_eq_mask mask_eq_exp_minus_1)

text \<open>
  What \<open>bipush\<close> and \<open>sipush\<close> push, for every immediate: the byte, respectively the
  big-endian pair of bytes, zero-extended to 32 bits.
\<close>

lemma run_bipush_pushes:
  assumes "codeBody t (code t) (ip t) = Some b"
  shows "run_bipush t = Some (GotoLoop, pushInt (t\<lparr>ip := ip t + 1\<rparr>) (ucast b))"
  using assms by (simp add: run_bipush_def)

lemma run_sipush_pushes:
  assumes "codeBody t (code t) (ip t) = Some b1" and "codeBody t (code t) (ip t + 1) = Some b2"
  shows "run_sipush t =
    Some (GotoLoop, pushInt (t\<lparr>ip := ip t + 2\<rparr>) (push_bit 8 (ucast b1) OR ucast b2))"
  using assms by (simp add: run_sipush_def)

text \<open>
  Claim C5 (bipush and sipush push their immediate sign-extended, also when it is
  negative) fails on the code.  At the immediate byte 0xFF, which is -1 as a signed byte,
  \<open>bipush\<close> pushes 255; at the immediate bytes 0xFF 0xFE, which are -2 as a signed
  16-bit value, \<open>sipush\<close> pushes 65534.  The sign extensions would be -1 and -2.
\<close>

theorem bipush_sipush_push_unsigned_immediate:
  "map_option (\<lambda>(c, t). (c, ip t, sp t, fst (popInt t))) (run_bipush (threadOn [0xFF]))
     = Some (GotoLoop, 1, 1, 255)
   \<and> (scast (0xFF :: 8 word) :: 32 word) = - 1
   \<and> map_option (\<lambda>(c, t). (c, ip t, sp t, fst (popInt t))) (run_sipush (threadOn [0xFF, 0xFE]))
     = Some (GotoLoop, 2, 1, 65534)
   \<and> (scast (0xFFFE :: 16 word) :: 32 word) = - 2"
  by (simp add: run_bipush_def run_sipush_def stack_defs concrete_defs)

text \<open>
  Claim C6 (iushr is the logical right shift) fails on the code.  With a = -8 and b = 1
  on the stack, \<open>iushr\<close> leaves -4, the arithmetic shift; the logical shift of -8 by 1
  is 0x7FFFFFFC.
\<close>

theorem iushr_shifts_arithmetically:
  "map_option (\<lambda>(c, t). (c, sp t, fst (popInt t)))
       (run_iushr (pushInt (pushInt (threadOn []) (- 8)) 1))
     = Some (GotoLoop, 1, - 4)
   \<and> drop_bit 1 (- 8 :: 32 word) = 0x7FFFFFFC"
  by (simp add: run_iushr_def shiftRightInt_def stack_defs concrete_defs)

text \<open>
  \<open>goto_w\<close> branches relative to the address of its own opcode byte, for every offset.
\<close>

lemma run_goto_w_target:
  assumes "codeBody t (code t) (ip t) = Some o1" and "codeBody t (code t) (ip t + 1) = Some o2"
    and "codeBody t (code t) (ip t + 2) = Some o3" and "codeBody t (code t) (ip t + 3) = Some o4"
  shows "run_goto_w t = Some (GotoLoop, t\<lparr>ip := (ip t - 1) + offset32 o1 o2 o3 o4\<rparr>)"
  using assms by (simp add: run_goto_w_def)

text \<open>
  Claim C7 (jsr_w and goto_w branch relative to the opcode's own address, and jsr_w pushes
  the address after its five bytes) fails on the code for the target of \<open>jsr_w\<close>.  A
  \<open>jsr_w\<close> at address 0 with offset 8 pushes the return address 5 and continues at
  address 10, two bytes past the target 8; a \<open>goto_w\<close> at address 0 with offset 8
  continues at address 8.
\<close>

theorem jsr_w_branches_two_bytes_late:
  "map_option (\<lambda>(c, t). (c, ip t, sp t, fst (popInt t)))
       (run_jsr_w ((threadOn [0xC9, 0, 0, 0, 8])\<lparr>ip := 1\<rparr>))
     = Some (GotoLoop, 10, 1, 5)
   \<and> map_option (\<lambda>(c, t). (c, ip t, sp t))
       (run_goto_w ((threadOn [0xC8, 0, 0, 0, 8])\<lparr>ip := 1\<rparr>))
     = Some (GotoLoop, 8, 0)"
  by (simp add: run_jsr_w_def run_goto_w_def offset32_def stack_defs concrete_defs)

text \<open>
  Claim C8 (wide iinc adds its 2-byte increment sign-extended) fails on the code.  With
  local 0 holding 10 and the increment bytes 0xFF 0xFF, which are -1 as a signed 16-bit
  value, \<open>wide iinc\<close> leaves 65545 in the local, not 9.  The one-byte \<open>iinc\<close> with the
  increment byte 0xFF leaves 9.
\<close>

theorem wide_iinc_adds_unsigned_increment:
  "map_option (\<lambda>(c, t). (c, ip t, localInt t 0))
       (run_wide_iinc (pokeInt ((threadOn [0xC4, 0x84, 0, 0, 0xFF, 0xFF])
          \<lparr>ip := 2, sp := 5, frame := 1\<rparr>) 0 10))
     = Some (GotoLoop, 6, 65545)
   \<and> map_option (\<lambda>(c, t). (c, ip t, localInt t 0))
       (run_iinc (pokeInt ((threadOn [0x84, 0, 0xFF])\<lparr>ip := 1, sp := 5, frame := 1\<rparr>) 0 10))
     = Some (GotoLoop, 3, 9)"
  by (simp add: run_wide_iinc_def run_iinc_def stack_defs concrete_defs)

text \<open>
  Claim C9 (lneg pops one long and pushes its 64-bit negation) fails on the code.  With
  the long 1 on the stack (two slots, \<open>sp = 2\<close>), \<open>lneg\<close> pops one slot, negates it as a
  32-bit value and pushes that as a long: the stack then holds three slots and its top
  long is 0xFFFFFFFF, not -1.
\<close>

theorem lneg_pops_one_slot:
  "sp (pushLong (threadOn []) 1) = 2
   \<and> map_option (\<lambda>(c, t). (c, sp t, fst (popLong t))) (run_lneg (pushLong (threadOn []) 1))
     = Some (GotoLoop, 3, 0xFFFFFFFF)
   \<and> (- 1 :: 64 word) \<noteq> 0xFFFFFFFF"
  by (simp add: run_lneg_def stack_defs concrete_defs ucast_minus_one_32_64)

section \<open>Properties: type checks on the null reference\<close>

lemmas heap_defs = classOf_def fieldOf_def methodOf_def referenceOf_def arrayOf_def byteArrayOf_def
  handlerTableOf_def intValue_def longValue_def arrayBody_def setArrayBody_def classInitializer_def
  setClassInitializer_def setReferenceClass_def objectClass_def allocate_def makeInt_def makeLong_def
  makeThrowable_def makeClassCastException_def makeNoSuchFieldError_def makeNoSuchMethodError_def

lemma castThread_unresolvable:
  "map_option (\<lambda>(c, t). (c, exception t)) (resolveClass castThread 2 0) = Some (0, 4)"
  by (simp add: castThread_def resolveClass_def resolveClassByName_def heap_defs stack_defs
      concrete_defs)

text \<open>
  Claim C10: when the operand on top of the stack is null, \<open>checkcast\<close> and \<open>instanceof\<close>
  read their two index bytes and do not resolve the class the bytes name.  \<open>checkcast\<close>
  goes back to the dispatch loop with only \<open>ip\<close> advanced by 2: the stack, the heap (so
  the constant pool) and the pending exception are as before.  \<open>instanceof\<close> does the
  same and pushes the int 0.  Nothing is assumed of the constant pool, so this holds also
  when the named class cannot be resolved.
\<close>

theorem null_operand_is_not_resolved:
  assumes "codeBody t (code t) (ip t) = Some index1"
    and "codeBody t (code t) (ip t + 1) = Some index2"
    and "peekObject t (sp t - 1) = 0"
  shows "run_checkcast t = Some (GotoLoop, t\<lparr>ip := ip t + 2\<rparr>)
       \<and> run_instanceof t = Some (GotoLoop, pushInt (t\<lparr>ip := ip t + 2\<rparr>) 0)"
  using assms by (simp add: run_checkcast_def run_instanceof_def peekObject_def)

text \<open>
  The theorem at \<open>castThread\<close>, where resolving constant 1 would leave a pending error
  (the new object 4) and no class.
\<close>

theorem null_operand_is_not_resolved_witness:
  "codeBody castThread (code castThread) (ip castThread) = Some 0
   \<and> codeBody castThread (code castThread) (ip castThread + 1) = Some 1
   \<and> peekObject castThread (sp castThread - 1) = 0
   \<and> map_option (\<lambda>(c, t). (c, exception t)) (resolveClass castThread 2 0) = Some (0, 4)
   \<and> run_checkcast castThread = Some (GotoLoop, castThread\<lparr>ip := 3\<rparr>)
   \<and> run_instanceof castThread = Some (GotoLoop, pushInt (castThread\<lparr>ip := 3\<rparr>) 0)"
proof -
  have a: "codeBody castThread (code castThread) (ip castThread) = Some 0"
    by (simp add: castThread_def stack_defs concrete_defs)
  have b: "codeBody castThread (code castThread) (ip castThread + 1) = Some 1"
    by (simp add: castThread_def stack_defs concrete_defs)
  have c: "peekObject castThread (sp castThread - 1) = 0"
    by (simp add: castThread_def stack_defs concrete_defs)
  have d: "ip castThread + 2 = 3"
    by (simp add: castThread_def stack_defs concrete_defs)
  show ?thesis
    using null_operand_is_not_resolved [OF a b c] a b c castThread_unresolvable
    by (simp add: d)
qed

section \<open>Properties: what resolution and static access leave unchanged\<close>

lemma initializerCleared_cong:
  "heap t' = heap t \<Longrightarrow> nextFree t' = nextFree t \<Longrightarrow> initializerCleared t' K = initializerCleared t K"
  by (simp add: initializerCleared_def classInitializer_def classOf_def)

lemma cleared_exception [simp]:
  "initializerCleared (t\<lparr>exception := e\<rparr>) K = initializerCleared t K"
  by (simp add: initializerCleared_def classInitializer_def classOf_def)

lemma cleared_allocate:
  "initializerCleared t K \<Longrightarrow> allocate t v = (h, t') \<Longrightarrow> initializerCleared t' K"
  by (auto simp: initializerCleared_def classInitializer_def classOf_def allocate_def Let_def)

lemma cleared_setArrayBody:
  "initializerCleared t K \<Longrightarrow> setArrayBody t a i v = Some t' \<Longrightarrow> initializerCleared t' K"
  by (auto simp: initializerCleared_def classInitializer_def classOf_def setArrayBody_def arrayOf_def
      split: option.splits hobj.splits if_splits)

lemma cleared_setReferenceClass:
  "initializerCleared t K \<Longrightarrow> setReferenceClass t a v = Some t' \<Longrightarrow> initializerCleared t' K"
  by (auto simp: initializerCleared_def classInitializer_def classOf_def setReferenceClass_def
        referenceOf_def split: option.splits hobj.splits if_splits)

lemma cleared_setClassInitializer:
  "initializerCleared t K \<Longrightarrow> setClassInitializer t c 0 = Some t' \<Longrightarrow> initializerCleared t' K"
  by (auto simp: initializerCleared_def classInitializer_def classOf_def setClassInitializer_def
      split: option.splits hobj.splits if_splits)

lemma cleared_makeThrowable:
  "initializerCleared t K \<Longrightarrow> makeThrowable ty t = (e, t') \<Longrightarrow> initializerCleared t' K"
  unfolding makeThrowable_def by (rule cleared_allocate)

lemma cleared_resolveClassByName:
  assumes "initializerCleared t K" and "resolveClassByName t n = Some (c, t')"
  shows "initializerCleared t' K"
proof -
  obtain s where s: "byteArrayOf t n = Some s"
    using assms(2) by (auto simp: resolveClassByName_def bind_eq_Some_conv)
  show ?thesis
  proof (cases "finder t s = 0")
    case True
    obtain e t1 where m: "makeThrowable NoClassDefFoundErrorType t = (e, t1)"
      by (cases "makeThrowable NoClassDefFoundErrorType t")
    with assms(2) s True have "t' = t1\<lparr>exception := e\<rparr>"
      by (simp add: resolveClassByName_def)
    with cleared_makeThrowable [OF assms(1) m] show ?thesis by simp
  next
    case False
    with assms s show ?thesis by (simp add: resolveClassByName_def)
  qed
qed

lemma cleared_resolveReferenceClass:
  assumes "initializerCleared t K" and "resolveReferenceClass t r = Some (c, t')"
  shows "initializerCleared t' K"
proof -
  obtain k v where k: "referenceOf t r = Some k" and v: "heap t (r_class k) = Some v"
    using assms(2) by (auto simp: resolveReferenceClass_def bind_eq_Some_conv)
  show ?thesis
  proof (cases "isByteArray v")
    case True
    with assms(2) k v obtain c1 t1 where
      r: "resolveClassByName t (r_class k) = Some (c1, t1)"
      and rest: "(if exception t1 \<noteq> 0 then Some (0, t1)
                  else do { t2 \<leftarrow> setReferenceClass t1 r c1; Some (c1, t2) }) = Some (c, t')"
      by (auto simp: resolveReferenceClass_def bind_eq_Some_conv)
    have c1: "initializerCleared t1 K"
      by (rule cleared_resolveClassByName [OF assms(1) r])
    from rest c1 show ?thesis
      by (auto simp: bind_eq_Some_conv split: if_splits dest: cleared_setReferenceClass)
  next
    case False
    with assms k v show ?thesis by (simp add: resolveReferenceClass_def)
  qed
qed

lemma cleared_resolve:
  assumes "initializerCleared t K" and "resolve t pool i fnd mk = Some (c, t')"
    and mk: "\<And>u e u'. initializerCleared u K \<Longrightarrow> mk u = (e, u') \<Longrightarrow> initializerCleared u' K"
  shows "initializerCleared t' K"
proof -
  obtain obj v where obj: "arrayBody t pool i = Some obj" and v: "heap t obj = Some v"
    using assms(2) by (auto simp: resolve_def bind_eq_Some_conv)
  show ?thesis
  proof (cases "isReference v")
    case True
    with assms(2) obj v obtain cls t1 where
      r: "resolveReferenceClass t obj = Some (cls, t1)"
      and rest: "(if exception t1 \<noteq> 0 then Some (0, t1)
         else do {
           reference \<leftarrow> arrayBody t1 pool i;
           found \<leftarrow> findInChain t1 fnd cls reference;
           let t2 = (if found = 0
                     then (let (e, t') = mk t1 in t'\<lparr>exception := e\<rparr>) else t1);
           t3 \<leftarrow> setArrayBody t2 pool i found;
           Some (found, t3)
         }) = Some (c, t')"
      by (auto simp: resolve_def bind_eq_Some_conv)
    have c1: "initializerCleared t1 K"
      by (rule cleared_resolveReferenceClass [OF assms(1) r])
    have c2: "initializerCleared (let (e, t') = mk t1 in t'\<lparr>exception := e\<rparr>) K"
      using mk [OF c1] by (cases "mk t1") simp
    from rest c1 c2 show ?thesis
      by (auto simp: bind_eq_Some_conv Let_def split: if_splits dest: cleared_setArrayBody)
  next
    case False
    with assms obj v show ?thesis by (simp add: resolve_def)
  qed
qed

lemma cleared_resolveField:
  assumes "initializerCleared t K" and "resolveField t pool i = Some (c, t')"
  shows "initializerCleared t' K"
  using assms(2) unfolding resolveField_def
  by (rule cleared_resolve [OF assms(1)]) (simp add: makeNoSuchFieldError_def cleared_makeThrowable)

lemma sameRegisters_refl [simp]: "sameRegisters t t"
  by (simp add: sameRegisters_def)

lemma sameRegisters_trans: "sameRegisters t u \<Longrightarrow> sameRegisters u v \<Longrightarrow> sameRegisters t v"
  by (simp add: sameRegisters_def)

lemma sameRegisters_exception [simp]:
  "sameRegisters t (u\<lparr>exception := e\<rparr>) = sameRegisters t u"
  by (simp add: sameRegisters_def)

lemma registers_allocate: "allocate t v = (h, t') \<Longrightarrow> sameRegisters t t'"
  by (auto simp: allocate_def Let_def sameRegisters_def)

lemma registers_makeThrowable: "makeThrowable ty t = (h, t') \<Longrightarrow> sameRegisters t t'"
  unfolding makeThrowable_def by (rule registers_allocate)

lemma registers_setArrayBody: "setArrayBody t a i v = Some t' \<Longrightarrow> sameRegisters t t'"
  by (auto simp: setArrayBody_def sameRegisters_def split: option.splits if_splits)

lemma registers_setReferenceClass: "setReferenceClass t a v = Some t' \<Longrightarrow> sameRegisters t t'"
  by (auto simp: setReferenceClass_def sameRegisters_def split: option.splits)

lemma registers_resolveClassByName:
  assumes "resolveClassByName t n = Some (c, t')"
  shows "sameRegisters t t'"
proof -
  obtain s where s: "byteArrayOf t n = Some s"
    using assms by (auto simp: resolveClassByName_def bind_eq_Some_conv)
  show ?thesis
  proof (cases "finder t s = 0")
    case True
    obtain e t1 where m: "makeThrowable NoClassDefFoundErrorType t = (e, t1)"
      by (cases "makeThrowable NoClassDefFoundErrorType t")
    with assms s True have "t' = t1\<lparr>exception := e\<rparr>"
      by (simp add: resolveClassByName_def)
    with registers_makeThrowable [OF m] show ?thesis by simp
  next
    case False
    with assms s show ?thesis by (simp add: resolveClassByName_def)
  qed
qed

lemma registers_resolveReferenceClass:
  assumes "resolveReferenceClass t r = Some (c, t')"
  shows "sameRegisters t t'"
proof -
  obtain k v where k: "referenceOf t r = Some k" and v: "heap t (r_class k) = Some v"
    using assms by (auto simp: resolveReferenceClass_def bind_eq_Some_conv)
  show ?thesis
  proof (cases "isByteArray v")
    case True
    with assms k v obtain c1 t1 where
      r: "resolveClassByName t (r_class k) = Some (c1, t1)"
      and rest: "(if exception t1 \<noteq> 0 then Some (0, t1)
                  else do { t2 \<leftarrow> setReferenceClass t1 r c1; Some (c1, t2) }) = Some (c, t')"
      by (auto simp: resolveReferenceClass_def bind_eq_Some_conv)
    have c1: "sameRegisters t t1"
      by (rule registers_resolveClassByName [OF r])
    from rest c1 show ?thesis
      by (auto simp: bind_eq_Some_conv split: if_splits
          dest!: registers_setReferenceClass elim: sameRegisters_trans)
  next
    case False
    with assms k v show ?thesis by (simp add: resolveReferenceClass_def)
  qed
qed

lemma registers_resolve:
  assumes "resolve t pool i fnd mk = Some (c, t')"
    and mk: "\<And>u e u'. mk u = (e, u') \<Longrightarrow> sameRegisters u u'"
  shows "sameRegisters t t'"
proof -
  obtain obj v where obj: "arrayBody t pool i = Some obj" and v: "heap t obj = Some v"
    using assms(1) by (auto simp: resolve_def bind_eq_Some_conv)
  show ?thesis
  proof (cases "isReference v")
    case True
    with assms(1) obj v obtain cls t1 where
      r: "resolveReferenceClass t obj = Some (cls, t1)"
      and rest: "(if exception t1 \<noteq> 0 then Some (0, t1)
         else do {
           reference \<leftarrow> arrayBody t1 pool i;
           found \<leftarrow> findInChain t1 fnd cls reference;
           let t2 = (if found = 0
                     then (let (e, t') = mk t1 in t'\<lparr>exception := e\<rparr>) else t1);
           t3 \<leftarrow> setArrayBody t2 pool i found;
           Some (found, t3)
         }) = Some (c, t')"
      by (auto simp: resolve_def bind_eq_Some_conv)
    have c1: "sameRegisters t t1"
      by (rule registers_resolveReferenceClass [OF r])
    have c2: "sameRegisters t1 (let (e, t') = mk t1 in t'\<lparr>exception := e\<rparr>)"
      using mk by (cases "mk t1") simp
    from rest c1 c2 show ?thesis
      by (auto simp: bind_eq_Some_conv Let_def split: if_splits
          dest!: registers_setArrayBody elim: sameRegisters_trans)
  next
    case False
    with assms obj v show ?thesis by (simp add: resolve_def)
  qed
qed

lemma registers_resolveField:
  assumes "resolveField t pool i = Some (c, t')"
  shows "sameRegisters t t'"
  using assms unfolding resolveField_def
  by (rule registers_resolve) (simp add: makeNoSuchFieldError_def registers_makeThrowable)

lemma staticFieldEntry_eq:
  assumes b1: "codeBody t (code t) (ip t) = Some index1"
    and b2: "codeBody t (code t) (ip t + 1) = Some index2"
    and k: "codeOf t (code t) = Some k"
    and res: "resolveField (t\<lparr>ip := ip t + 2\<rparr>) (k_pool k) (ucast (index16 index1 index2) - 1)
                = Some (field, t2)"
    and exc: "exception t2 = 0"
    and f: "fieldOf t2 field = Some f"
    and kl: "classOf t2 (f_class f) = Some kl"
  shows "staticFieldEntry t =
    (if c_initializer kl \<noteq> 0
     then Some (Inl (GotoInvoke,
        t2\<lparr>heap := (heap t2)(f_class f := Some (Class (kl\<lparr>c_initializer := 0\<rparr>))),
           code := c_initializer kl, ip := ip t - 1\<rparr>))
     else Some (Inr (field, t2)))"
proof -
  have ipt2: "ip t2 = ip t + 2"
    using registers_resolveField [OF res] by (simp add: sameRegisters_def)
  have k': "codeOf (t\<lparr>ip := ip t + 2\<rparr>) (code t) = Some k"
    using k by (simp add: codeOf_def)
  show ?thesis
    using b1 b2 k' res exc f kl ipt2
    by (simp add: staticFieldEntry_def classInitializer_def setClassInitializer_def)
qed

lemma cleared_registers [simp]:
  "initializerCleared (t\<lparr>ip := i\<rparr>) K = initializerCleared t K"
  "initializerCleared (t\<lparr>sp := j\<rparr>) K = initializerCleared t K"
  "initializerCleared (t\<lparr>code := c\<rparr>) K = initializerCleared t K"
  "initializerCleared (t\<lparr>stack := st\<rparr>) K = initializerCleared t K"
  by (simp_all add: initializerCleared_def classInitializer_def classOf_def)

lemma cleared_stack_ops [simp]:
  "initializerCleared (pushInt t v) K = initializerCleared t K"
  "initializerCleared (pushObject t obj) K = initializerCleared t K"
  "initializerCleared (pushLong t w) K = initializerCleared t K"
  "initializerCleared (snd (popInt t)) K = initializerCleared t K"
  "initializerCleared (snd (popObject t)) K = initializerCleared t K"
  "initializerCleared (snd (popLong t)) K = initializerCleared t K"
  by (simp_all add: stack_defs Let_def split_def)

lemma cleared_pops:
  "popInt t = (x, t') \<Longrightarrow> initializerCleared t' K = initializerCleared t K"
  "popObject t = (obj, t') \<Longrightarrow> initializerCleared t' K = initializerCleared t K"
  "popLong t = (w, t') \<Longrightarrow> initializerCleared t' K = initializerCleared t K"
  by (auto simp: stack_defs Let_def split_def)

lemma cleared_staticFieldEntry:
  assumes c: "initializerCleared u K" and e: "staticFieldEntry u = Some e"
  shows "initializerCleared (case e of Inl out \<Rightarrow> snd out | Inr ft \<Rightarrow> snd ft) K"
proof -
  have c1: "initializerCleared (u\<lparr>ip := ip u + 2\<rparr>) K"
    using c by simp
  from e show ?thesis
    by (auto simp: staticFieldEntry_def bind_eq_Some_conv Let_def split: if_splits
        dest!: cleared_resolveField [OF c1] dest: cleared_setClassInitializer)
qed

lemma cleared_run_getstatic:
  assumes c: "initializerCleared u K" and r: "run_getstatic u = Some out"
  shows "initializerCleared (snd out) K"
proof -
  from r obtain e where e: "staticFieldEntry u = Some e"
    by (auto simp: run_getstatic_def bind_eq_Some_conv)
  note ce = cleared_staticFieldEntry [OF c e]
  show ?thesis
  proof (cases e)
    case (Inl o1)
    with r e ce show ?thesis by (simp add: run_getstatic_def)
  next
    case (Inr ft)
    obtain fld t2 where ft: "ft = (fld, t2)" by (cases ft)
    from ce Inr ft have c2: "initializerCleared t2 K" by simp
    from r e Inr ft c2 show ?thesis
      by (auto simp: run_getstatic_def bind_eq_Some_conv split: if_splits)
  qed
qed

lemma cleared_run_putstatic:
  assumes c: "initializerCleared u K" and r: "run_putstatic u = Some out"
  shows "initializerCleared (snd out) K"
proof -
  from r obtain e where e: "staticFieldEntry u = Some e"
    by (auto simp: run_putstatic_def bind_eq_Some_conv)
  note ce = cleared_staticFieldEntry [OF c e]
  show ?thesis
  proof (cases e)
    case (Inl o1)
    with r e ce show ?thesis by (simp add: run_putstatic_def)
  next
    case (Inr ft)
    obtain fld t2 where ft: "ft = (fld, t2)" by (cases ft)
    from ce Inr ft have c2: "initializerCleared t2 K" by simp
    from r e Inr ft obtain f v t3 tab off t4 where
      f: "fieldOf t2 fld = Some f"
      and v: "(if intField (f_code f) then (let (x, t') = popInt t2 in Some (makeInt t' x))
            else if longField (f_code f) then (let (x, t') = popLong t2 in Some (makeLong t' x))
            else if f_code f = ObjectField then Some (popObject t2)
            else None) = Some (v, t3)"
      and s: "setArrayBody t3 tab off v = Some t4"
      and out: "out = (GotoLoop, t4)"
      by (auto simp: run_putstatic_def bind_eq_Some_conv)
    have c3: "initializerCleared t3 K"
      using v c2
      by (auto simp: makeLong_def makeInt_def Let_def cleared_pops
            split: if_splits prod.splits dest: cleared_allocate [rotated])
    from cleared_setArrayBody [OF c3 s] out show ?thesis by simp
  qed
qed

section \<open>Properties: class initialization on static access\<close>

text \<open>One turn of the loop of \<open>resolve\<close>, in a form that evaluates on a concrete heap.\<close>

lemma findInChain_unfold:
  "findInChain t fnd cls ref =
     (if cls = 0 then Some 0
      else case fnd t cls ref of
             None \<Rightarrow> None
           | Some r \<Rightarrow> (case classOf t cls of
                          None \<Rightarrow> None
                        | Some k \<Rightarrow> if r \<noteq> 0 then Some r
                                    else findInChain t fnd (c_super k) ref))"
  by (subst findInChain.simps) (simp split: option.splits)

lemmas resolve_defs = resolveField_def resolveMethod_def resolve_def resolveReferenceClass_def
  resolveClassByName_def resolveClass_def findFieldInClass_def findMethodInClass_def
  findInTable_def fieldNameSpec_def methodNameSpec_def index16_def

lemma staticThread_resolves:
  "\<exists>t2. resolveField (staticThread\<lparr>ip := ip staticThread + 2\<rparr>) 2 (ucast (index16 0 1) - 1)
           = Some (10, t2)
     \<and> exception t2 = 0
     \<and> fieldOf t2 10 = Some \<lparr> f_class = 7, f_code = IntField, f_offset = 0, f_name = 5,
              f_spec = 6 \<rparr>
     \<and> classOf t2 7 = Some \<lparr> c_flags = 0, c_name = 4, c_super = 0, c_interfaceTable = 0,
              c_virtualTable = 0, c_fieldTable = 8, c_methodTable = 0, c_staticTable = 9,
              c_initializer = 11 \<rparr>"
  by (simp add: staticThread_def staticHeap_def resolve_defs heap_defs bootThread_def
      findInChain_unfold)

lemma staticThreadAgain_resolves:
  "resolveField (staticThreadAgain\<lparr>ip := ip staticThreadAgain + 2\<rparr>) 2 (ucast (index16 0 1) - 1)
           = Some (10, staticThreadAgain\<lparr>ip := ip staticThreadAgain + 2\<rparr>)"
  by (simp add: staticThreadAgain_def staticThread_def staticHeap_def resolve_defs heap_defs
      bootThread_def)

text \<open>
  What \<open>getstatic\<close> and \<open>putstatic\<close> do by themselves.  When one of them resolves its
  constant to a field of a class \<open>K\<close> whose initializer slot is not null, the case sets
  the slot to null, makes the initializer the target in \<open>code\<close>, sets \<open>ip\<close> back to
  the address of the opcode (3 less than after the two index bytes) and goes to the invoke
  transition.  And in any thread \<open>u\<close> in which the slot of \<open>K\<close> is null, the two
  opcodes on a field of \<open>K\<close> do not reach the invoke transition (they go back to the
  dispatch loop after the access), and they leave the slot null.  Whether the slot of
  \<open>K\<close> is null whenever the initializer of \<open>K\<close> has been run is another matter: see
  \<open>invokevirtual\<close> below.
\<close>

theorem static_initializer_runs_once:
  assumes b1: "codeBody t (code t) (ip t) = Some index1"
    and b2: "codeBody t (code t) (ip t + 1) = Some index2"
    and k: "codeOf t (code t) = Some k"
    and res: "resolveField (t\<lparr>ip := ip t + 2\<rparr>) (k_pool k) (ucast (index16 index1 index2) - 1)
                = Some (field, t2)"
    and exc: "exception t2 = 0"
    and f: "fieldOf t2 field = Some f"
    and kl: "classOf t2 (f_class f) = Some kl"
    and init: "c_initializer kl \<noteq> 0"
    and cu: "initializerCleared u (f_class f)"
    and ub1: "codeBody u (code u) (ip u) = Some j1"
    and ub2: "codeBody u (code u) (ip u + 1) = Some j2"
    and uk: "codeOf u (code u) = Some ku"
    and ures: "resolveField (u\<lparr>ip := ip u + 2\<rparr>) (k_pool ku) (ucast (index16 j1 j2) - 1)
                = Some (field', u2)"
    and uexc: "exception u2 = 0"
    and uf: "fieldOf u2 field' = Some f'"
    and same: "f_class f' = f_class f"
  shows "run_getstatic t = Some (GotoInvoke,
            t2\<lparr>heap := (heap t2)(f_class f := Some (Class (kl\<lparr>c_initializer := 0\<rparr>))),
               code := c_initializer kl, ip := ip t - 1\<rparr>)
       \<and> run_putstatic t = Some (GotoInvoke,
            t2\<lparr>heap := (heap t2)(f_class f := Some (Class (kl\<lparr>c_initializer := 0\<rparr>))),
               code := c_initializer kl, ip := ip t - 1\<rparr>)
       \<and> classInitializer
            (t2\<lparr>heap := (heap t2)(f_class f := Some (Class (kl\<lparr>c_initializer := 0\<rparr>))),
               code := c_initializer kl, ip := ip t - 1\<rparr>) (f_class f) = Some 0
       \<and> (\<forall>out \<in> set_option (run_getstatic u) \<union> set_option (run_putstatic u).
            fst out = GotoLoop \<and> initializerCleared (snd out) (f_class f))"
proof -
  have e: "staticFieldEntry t = Some (Inl (GotoInvoke,
            t2\<lparr>heap := (heap t2)(f_class f := Some (Class (kl\<lparr>c_initializer := 0\<rparr>))),
               code := c_initializer kl, ip := ip t - 1\<rparr>))"
    using staticFieldEntry_eq [OF b1 b2 k res exc f kl] init by simp
  have g: "run_getstatic t = Some (GotoInvoke,
            t2\<lparr>heap := (heap t2)(f_class f := Some (Class (kl\<lparr>c_initializer := 0\<rparr>))),
               code := c_initializer kl, ip := ip t - 1\<rparr>)"
    by (simp add: run_getstatic_def e)
  have p: "run_putstatic t = Some (GotoInvoke,
            t2\<lparr>heap := (heap t2)(f_class f := Some (Class (kl\<lparr>c_initializer := 0\<rparr>))),
               code := c_initializer kl, ip := ip t - 1\<rparr>)"
    by (simp add: run_putstatic_def e)
  have c: "classInitializer
            (t2\<lparr>heap := (heap t2)(f_class f := Some (Class (kl\<lparr>c_initializer := 0\<rparr>))),
               code := c_initializer kl, ip := ip t - 1\<rparr>) (f_class f) = Some 0"
    by (simp add: classInitializer_def classOf_def)
  have cu2: "initializerCleared u2 (f_class f)"
    using cleared_resolveField [OF _ ures] cu by simp
  then obtain kl' where kl': "classOf u2 (f_class f') = Some kl'" and z: "c_initializer kl' = 0"
    using same by (auto simp: initializerCleared_def classInitializer_def)
  have ue: "staticFieldEntry u = Some (Inr (field', u2))"
    using staticFieldEntry_eq [OF ub1 ub2 uk ures uexc uf kl'] z by simp
  have n: "\<forall>out \<in> set_option (run_getstatic u) \<union> set_option (run_putstatic u).
            fst out = GotoLoop \<and> initializerCleared (snd out) (f_class f)"
  proof
    fix out
    assume "out \<in> set_option (run_getstatic u) \<union> set_option (run_putstatic u)"
    then consider "run_getstatic u = Some out" | "run_putstatic u = Some out"
      by (cases "run_getstatic u"; cases "run_putstatic u"; auto)
    then show "fst out = GotoLoop \<and> initializerCleared (snd out) (f_class f)"
    proof cases
      case 1
      have "fst out = GotoLoop"
        using 1 ue by (auto simp: run_getstatic_def bind_eq_Some_conv split: if_splits)
      with cleared_run_getstatic [OF cu 1] show ?thesis by simp
    next
      case 2
      have "fst out = GotoLoop"
        using 2 ue by (auto simp: run_putstatic_def bind_eq_Some_conv split: if_splits)
      with cleared_run_putstatic [OF cu 2] show ?thesis by simp
    qed
  qed
  from g p c n show ?thesis by blast
qed

lemma staticThreadAgain_runs:
  "run_getstatic staticThreadAgain
     = Some (GotoLoop, pushInt (staticThreadAgain\<lparr>ip := 3\<rparr>) 42)"
  by (simp add: run_getstatic_def staticFieldEntry_def staticThreadAgain_resolves [simplified])
     (simp add: staticThreadAgain_def staticThread_def staticHeap_def heap_defs bootThread_def
        codeBody_def codeOf_def resolve_defs)

text \<open>
  The theorem at \<open>staticThread\<close> and, for the second run, at \<open>staticThreadAgain\<close>.
\<close>

theorem static_initializer_runs_once_witness:
  "map_option (\<lambda>(c, t'). (c, code t', ip t', classInitializer t' 7)) (run_getstatic staticThread)
     = Some (GotoInvoke, 11, 0, Some 0)
   \<and> map_option (\<lambda>(c, t'). (c, code t', ip t', classInitializer t' 7)) (run_putstatic staticThread)
     = Some (GotoInvoke, 11, 0, Some 0)
   \<and> initializerCleared staticThreadAgain 7
   \<and> run_getstatic staticThreadAgain = Some (GotoLoop, pushInt (staticThreadAgain\<lparr>ip := 3\<rparr>) 42)
   \<and> initializerCleared (pushInt (staticThreadAgain\<lparr>ip := 3\<rparr>) 42) 7"
proof -
  let ?k = "\<lparr> k_pool = 2, k_exceptionHandlerTable = 0, k_maxStack = 8,
              k_maxLocals = 8, k_body = [0xB2, 0, 1] \<rparr> :: jcode"
  let ?f = "\<lparr> f_class = 7, f_code = IntField, f_offset = 0, f_name = 5, f_spec = 6 \<rparr> :: jfield"
  let ?kl = "\<lparr> c_flags = 0, c_name = 4, c_super = 0, c_interfaceTable = 0,
              c_virtualTable = 0, c_fieldTable = 8, c_methodTable = 0, c_staticTable = 9,
              c_initializer = 11 \<rparr> :: jclass"
  obtain t2 where
    res0: "resolveField (staticThread\<lparr>ip := ip staticThread + 2\<rparr>) 2 (ucast (index16 0 1) - 1)
           = Some (10, t2)"
    and exc: "exception t2 = 0" and f0: "fieldOf t2 10 = Some ?f" and kl0: "classOf t2 7 = Some ?kl"
    using staticThread_resolves by blast
  have b1: "codeBody staticThread (code staticThread) (ip staticThread) = Some 0"
    and b2: "codeBody staticThread (code staticThread) (ip staticThread + 1) = Some 1"
    and k: "codeOf staticThread (code staticThread) = Some ?k"
    by (simp_all add: staticThread_def staticHeap_def bootThread_def codeBody_def codeOf_def)
  have res: "resolveField (staticThread\<lparr>ip := ip staticThread + 2\<rparr>) (k_pool ?k)
               (ucast (index16 0 1) - 1) = Some (10, t2)"
    using res0 by simp
  have kl: "classOf t2 (f_class ?f) = Some ?kl"
    using kl0 by simp
  have init: "c_initializer ?kl \<noteq> 0"
    by simp
  have cu: "initializerCleared staticThreadAgain (f_class ?f)"
    by (simp add: initializerCleared_def classInitializer_def classOf_def staticThreadAgain_def
        staticThread_def staticHeap_def bootThread_def)
  have ub1: "codeBody staticThreadAgain (code staticThreadAgain) (ip staticThreadAgain) = Some 0"
    and ub2: "codeBody staticThreadAgain (code staticThreadAgain) (ip staticThreadAgain + 1) = Some 1"
    and uk: "codeOf staticThreadAgain (code staticThreadAgain) = Some ?k"
    by (simp_all add: staticThreadAgain_def staticThread_def staticHeap_def bootThread_def
        codeBody_def codeOf_def)
  have ures: "resolveField (staticThreadAgain\<lparr>ip := ip staticThreadAgain + 2\<rparr>) (k_pool ?k)
               (ucast (index16 0 1) - 1)
               = Some (10, staticThreadAgain\<lparr>ip := ip staticThreadAgain + 2\<rparr>)"
    using staticThreadAgain_resolves by simp
  have uexc: "exception (staticThreadAgain\<lparr>ip := ip staticThreadAgain + 2\<rparr>) = 0"
    by (simp add: staticThreadAgain_def staticThread_def bootThread_def)
  have uf: "fieldOf (staticThreadAgain\<lparr>ip := ip staticThreadAgain + 2\<rparr>) 10 = Some ?f"
    by (simp add: staticThreadAgain_def staticThread_def staticHeap_def bootThread_def fieldOf_def)
  have ip1: "ip staticThread - 1 = 0"
    by (simp add: staticThread_def bootThread_def)
  note main = static_initializer_runs_once
    [OF b1 b2 k res exc f0 kl init cu ub1 ub2 uk ures uexc uf refl]
  from main have g: "map_option (\<lambda>(c, t'). (c, code t', ip t', classInitializer t' 7))
      (run_getstatic staticThread) = Some (GotoInvoke, 11, 0, Some 0)"
    by (simp add: ip1)
  from main have p: "map_option (\<lambda>(c, t'). (c, code t', ip t', classInitializer t' 7))
      (run_putstatic staticThread) = Some (GotoInvoke, 11, 0, Some 0)"
    by (simp add: ip1)
  from main staticThreadAgain_runs
  have a: "initializerCleared (pushInt (staticThreadAgain\<lparr>ip := 3\<rparr>) 42) 7"
    by simp
  from g p cu staticThreadAgain_runs a show ?thesis by simp
qed

section \<open>Properties: class initialization on a virtual call\<close>

lemmas virtual_defs = virtualThread_def virtualHeap_def bootThread_def heap_defs resolve_defs
  codeBody_def codeOf_def stack_defs Let_def objectClass_def findInChain_unfold
  classInitializer_def setClassInitializer_def

text \<open>
  \<open>invokevirtual\<close> at \<open>virtualThread\<close>: the constant is resolved to the method 12 of
  \<open>M\<close>, the initializer 19 of the class \<open>K\<close> of the receiver is the target, and the
  class whose initializer slot is written is \<open>M\<close> (object 7).
\<close>

lemma virtualThread_invokes:
  "run_invokevirtual virtualThread = Some (GotoInvoke, virtualThread\<lparr> ip := 0, code := 19,
     heap := virtualHeap(
       2 := Some (Array [12, 14]),
       3 := Some (Reference \<lparr> r_class = 7, r_name = 5, r_spec = 6 \<rparr>),
       7 := Some (Class \<lparr> c_flags = 0, c_name = 4, c_super = 0, c_interfaceTable = 0,
              c_virtualTable = 9, c_fieldTable = 11, c_methodTable = 8, c_staticTable = 0,
              c_initializer = 0 \<rparr>)) \<rparr>)"
  by (simp add: run_invokevirtual_def virtual_defs fun_eq_iff)

text \<open>
  Claim C3 (when \<open>getstatic\<close> or \<open>putstatic\<close> touches a field of a class \<open>K\<close> whose
  initializer slot is non-null, the slot is cleared, the initializer is invoked and the
  instruction is run again; consequently the initializer of \<open>K\<close> is never run a second
  time) fails on the code in its consequence.  \<open>invokevirtual\<close> on an instance of \<open>K\<close>
  (object 13), for a method that \<open>K\<close> inherits from \<open>M\<close> (object 7), goes to the invoke
  transition with the initializer of \<open>K\<close> (the method 19) as the target and \<open>ip\<close> back
  at the opcode, but the slot it clears is that of \<open>M\<close>: the slot of \<open>K\<close> still holds
  the method 19.  A \<open>getstatic\<close> on a field of \<open>K\<close>, run on the heap this leaves (the
  one at address 3 of the same code), finds the slot of \<open>K\<close> non-null and goes to the
  invoke transition with the method 19 once more; only then is the slot null.
\<close>

theorem invokevirtual_leaves_initializer_of_receiver_class:
  "map_option (\<lambda>(c, t). (c, code t, ip t, classInitializer t 13, classInitializer t 7))
       (run_invokevirtual virtualThread) = Some (GotoInvoke, 19, 0, Some 19, Some 0)
   \<and> map_option (\<lambda>(c, t). (c, code t, ip t, classInitializer t 13))
       (run_invokevirtual virtualThread
          \<bind> (\<lambda>(c, t). run_getstatic (t\<lparr>code := 1, ip := 4\<rparr>)))
       = Some (GotoInvoke, 19, 3, Some 0)"
  by (simp add: virtualThread_invokes)
     (simp add: run_getstatic_def staticFieldEntry_def virtual_defs)

section \<open>Properties: constant-pool resolution\<close>

lemma resolvedEntity_kinds:
  "resolvedEntity v \<Longrightarrow> \<not> isByteArray v \<and> \<not> isReference v"
  by (cases v) simp_all

lemma slotResolved_exception [simp]:
  "slotResolved (t\<lparr>exception := e\<rparr>) p j c = slotResolved t p j c"
  by (simp add: slotResolved_def arrayBody_def arrayOf_def)

















text \<open>
  The two halves together: a slot that holds a resolved entity resolves to that entity
  and leaves the thread as it is.  So the handle a resolution has returned is the result
  of every later resolution of the slot, whatever has been resolved in between.
\<close>

lemma slotResolved_resolves:
  assumes "slotResolved t p j e"
  shows "resolveClass t p j = Some (e, t) \<and> resolveField t p j = Some (e, t)
       \<and> resolveMethod t p j = Some (e, t)"
proof -
  from assms obtain v where a: "arrayBody t p j = Some e" and v: "heap t e = Some v"
    and r: "resolvedEntity v"
    by (auto simp: slotResolved_def)
  from resolvedEntity_kinds [OF r] a v show ?thesis
    by (simp add: resolveClass_def resolveField_def resolveMethod_def resolve_def)
qed

section \<open>Properties: the exception unwinder and monitors\<close>

lemma extendsWalk_unfold:
  "extendsWalk t cls oc =
     (if oc = 0 then Some False
      else if oc = cls then Some True
      else case classOf t oc of None \<Rightarrow> None | Some k \<Rightarrow> extendsWalk t cls (c_super k))"
  by (subst extendsWalk.simps) (simp split: option.splits)

lemma implementsWalk_unfold:
  "implementsWalk t cls oc =
     (if oc = 0 then Some False
      else case classOf t oc of
             None \<Rightarrow> None
           | Some k \<Rightarrow> (case arrayOf t (c_interfaceTable k) of
                          None \<Rightarrow> None
                        | Some itable \<Rightarrow> if itableHas itable cls then Some True
                                         else implementsWalk t cls (c_super k)))"
  by (subst implementsWalk.simps) (simp split: option.splits)

lemmas frame_defs = frameBase_def frameNext_def frameMethod_def frameIp_def FrameBaseOffset_def
  FrameNextOffset_def FrameMethodOffset_def FrameIpOffset_def FrameFootprint_def

lemmas access_defs = ACC_STATIC_def ACC_SYNCHRONIZED_def ACC_NATIVE_def ACC_INTERFACE_def

lemma callerThread_invokes:
  "pushFrame callerThread 5 = Some (thrownThread\<lparr>ip := 0, exception := 0\<rparr>)"
  by (simp add: pushFrame_def callerThread_def thrownThread_def callHeap_def bootThread_def
      heap_defs codeOf_def stack_defs frame_defs access_defs zeroSlots_def acquire_def Let_def
      fun_eq_iff)

text \<open>
  One turn of the loop over the handlers, and one turn of the loop over the frames, in a
  form that evaluates on a concrete heap.
\<close>

lemma scanHandlers_unfold:
  "scanHandlers t (eh # ehs) =
     (if ucast (eh_start eh) \<le> frameIp t (frame t) - 1
         \<and> frameIp t (frame t) - 1 < ucast (eh_end eh)
      then (case handlerCatchType t eh of
              None \<Rightarrow> None
            | Some (catchType, t1) \<Rightarrow>
                (case (if catchType = 0 then Some True
                       else instanceOf t1 catchType (exception t1)) of
                   None \<Rightarrow> None
                 | Some caught \<Rightarrow>
                     if caught then
                       Some (Inl ((pushObject (t1\<lparr>sp := frame t1 + FrameFootprint,
                                      ip := ucast (eh_ip eh)\<rparr>) (exception t1))\<lparr>exception := 0\<rparr>))
                     else scanHandlers t1 ehs))
      else scanHandlers t ehs)"
  by (simp split: option.splits prod.splits)

lemma unwind_unfold:
  "unwind t =
     (if 0 \<le>s frame t then
        (case methodOf t (frameMethod t (frame t)) of
           None \<Rightarrow> None
         | Some m \<Rightarrow>
             if m_flags m AND ACC_NATIVE \<noteq> 0 then Some (Return 0, t)
             else (case codeOf (t\<lparr>code := m_code m\<rparr>) (m_code m) of
                     None \<Rightarrow> None
                   | Some k \<Rightarrow>
                       (case (if k_exceptionHandlerTable k \<noteq> 0
                              then (case handlerTableOf (t\<lparr>code := m_code m\<rparr>)
                                           (k_exceptionHandlerTable k) of
                                      None \<Rightarrow> None
                                    | Some hs \<Rightarrow> scanHandlers (t\<lparr>code := m_code m\<rparr>) hs)
                              else Some (Inr (t\<lparr>code := m_code m\<rparr>))) of
                          None \<Rightarrow> None
                        | Some (Inl t2) \<Rightarrow> Some (GotoLoop, t2)
                        | Some (Inr t2) \<Rightarrow> unwind (t2\<lparr>frame := frameNext t2 (frame t2)\<rparr>))))
      else Some (Uncaught, t))"
  by (subst unwind.simps) (simp add: Let_def split: option.splits sum.splits)

lemmas unwind_defs = run_throw_def unwind_unfold scanHandlers_unfold scanHandlers.simps(1)
  handlerCatchType_def resolveClassByName_def makeThrowable_def allocate_def instanceOf_def
  extendsWalk_unfold objectClass_def thrownThread_def callerThread_def callHeap_def
  bootThread_def heap_defs codeOf_def stack_defs frame_defs access_defs word_sle_eq Let_def

text \<open>
  Claim C2 (the unwinder selects, in each frame from the current one towards the root,
  the first handler whose range \<open>[startPc, endPc)\<close> contains the saved \<open>ip\<close> less 1 and
  whose catch type is null or satisfies \<open>instanceOf(catchType, exception)\<close>; it then
  cuts \<open>sp\<close> back to \<open>frame + FrameFootprint\<close>, pushes the exception, sets \<open>ip\<close> to the
  handler's address and clears the pending exception) fails on the code for a handler
  whose catch type names a class that cannot be resolved.  The three threads are in the
  frame of \<open>B\<close> (slot 5), which has no handler, above the frame of \<open>A\<close> (slot 0), whose
  first handler does not cover the saved \<open>ip\<close> and whose second handler, at address 20,
  covers it and has the catch type \<open>T\<close>.

  \<^item> At \<open>thrownThread\<close> the exception is object 12, an instance of a subclass of \<open>T\<close>:
    the second handler of \<open>A\<close> is entered as the claim says, with \<open>sp\<close> one past
    \<open>frame + FrameFootprint\<close> = 4, object 12 in slot 4, \<open>ip\<close> = 20 and no pending
    exception.
  \<^item> At \<open>strangerThread\<close> the exception is object 11, which is not an instance of
    \<open>T\<close>: no handler is entered and object 11 is uncaught, as the claim says.
  \<^item> At \<open>unresolvedThread\<close> the exception is object 11 again and the class finder has
    no class \<open>T\<close>.  The result of the resolution is used with no look at the pending
    exception: it is null, so the handler for \<open>T\<close> is entered for an exception that is
    not an instance of \<open>T\<close>, and the object pushed is object 13, the error of the
    resolution, which has taken the place of object 11 as the pending exception.
\<close>

theorem unwinder_enters_handler_of_unresolved_class:
  "map_option (\<lambda>(c, t). (c, frame t, sp t, ip t, stack t 4, exception t))
       (run_throw thrownThread) = Some (GotoLoop, 0, 5, 20, (ObjectTag, 12), 0)
   \<and> map_option (\<lambda>(c, t). (c, exception t)) (run_throw strangerThread) = Some (Uncaught, 11)
   \<and> map_option (\<lambda>(c, t). (c, frame t, sp t, ip t, stack t 4, exception t))
       (run_throw unresolvedThread) = Some (GotoLoop, 0, 5, 20, (ObjectTag, 13), 0)"
  by (simp add: unwind_defs strangerThread_def unresolvedThread_def del: scanHandlers.simps(2))

text \<open>
  The normal path: the pop of a frame right after its push leaves every monitor count as
  it was before the push, for every method.  \<open>popFrame\<close> releases the monitor that
  \<open>pushFrame\<close> acquired.
\<close>

lemma pushFrame_result:
  assumes "pushFrame t method = Some t1"
  shows "\<exists>m t8. methodOf t method = Some m
      \<and> heap t8 = heap t \<and> monitors t8 = monitors t
      \<and> frameMethod t8 (frame t8) = method
      \<and> t1 = (if m_flags m AND ACC_SYNCHRONIZED \<noteq> 0 then
                 (if m_flags m AND ACC_STATIC \<noteq> 0 then acquire t8 (m_class m)
                  else acquire t8 (peekObject t8 (frameBase t8 (frame t8))))
               else t8)"
proof -
  from assms obtain m where m: "methodOf t method = Some m"
    by (auto simp: pushFrame_def bind_eq_Some_conv)
  let ?t2 = "(if 0 \<le>s frame t then pokeInt t (frame t + FrameIpOffset) (ip t) else t)\<lparr>ip := 0\<rparr>"
  from assms m obtain loc t3 where
    l: "(if m_flags m AND ACC_NATIVE = 0 then do {
          k \<leftarrow> codeOf ?t2 (m_code m);
          if k_maxLocals k < m_parameterFootprint m then None
          else Some (k_maxLocals k,
                 zeroSlots (?t2\<lparr>code := m_code m\<rparr>) (sp ?t2 - m_parameterFootprint m + m_parameterFootprint m)
                   (k_maxLocals k - m_parameterFootprint m))
        } else Some (m_parameterFootprint m, ?t2)) = Some (loc, t3)"
    by (simp add: pushFrame_def Let_def bind_eq_Some_conv) blast
  have h3: "heap t3 = heap t \<and> monitors t3 = monitors t"
    using l by (auto simp: bind_eq_Some_conv zeroSlots_def pokeInt_def split: if_splits)
  let ?base = "sp ?t2 - m_parameterFootprint m"
  let ?f = "?base + loc"
  let ?t8 = "pokeInt (pokeObject (pokeInt
      ((pokeInt t3 (?f + FrameNextOffset) (frame t3))\<lparr>frame := ?f, sp := ?f + FrameFootprint\<rparr>)
      (?f + FrameBaseOffset) ?base) (?f + FrameMethodOffset) method) (?f + FrameIpOffset) 0"
  have fr: "frame ?t8 = ?f"
    by (simp add: pokeInt_def pokeObject_def)
  have t1: "t1 = (if m_flags m AND ACC_SYNCHRONIZED \<noteq> 0 then
                 (if m_flags m AND ACC_STATIC \<noteq> 0 then acquire ?t8 (m_class m)
                  else acquire ?t8 (peekObject ?t8 ?base))
               else ?t8)"
    using assms m l
    by (auto simp add: pushFrame_def Let_def pokeInt_def pokeObject_def bind_eq_Some_conv
        zeroSlots_def split: if_splits)
  have fb: "frameBase ?t8 ?f = ?base"
    by (simp add: frame_defs pokeInt_def pokeObject_def peekInt_def)
  have fm: "frameMethod ?t8 ?f = method"
    by (simp add: frame_defs pokeInt_def pokeObject_def peekObject_def)
  have h8: "heap ?t8 = heap t \<and> monitors ?t8 = monitors t"
    using h3 by (simp add: pokeInt_def pokeObject_def)
  from m t1 fr fb fm h8 show ?thesis
    by (intro exI [of _ m] exI [of _ ?t8]) simp
qed

lemma pushFrame_popFrame_monitors:
  assumes "pushFrame t method = Some t1" and "popFrame t1 = Some t2"
  shows "monitors t2 = monitors t"
proof -
  from pushFrame_result [OF assms(1)] obtain m t8 where
    m: "methodOf t method = Some m" and h: "heap t8 = heap t" and mo: "monitors t8 = monitors t"
    and fm: "frameMethod t8 (frame t8) = method"
    and t1: "t1 = (if m_flags m AND ACC_SYNCHRONIZED \<noteq> 0 then
                 (if m_flags m AND ACC_STATIC \<noteq> 0 then acquire t8 (m_class m)
                  else acquire t8 (peekObject t8 (frameBase t8 (frame t8))))
               else t8)"
    by blast
  have m1: "methodOf t1 (frameMethod t1 (frame t1)) = Some m"
    using m h fm t1 by (simp add: methodOf_def acquire_def frameMethod_def peekObject_def)
  have rel: "monitors (if m_flags m AND ACC_SYNCHRONIZED \<noteq> 0 then
                 (if m_flags m AND ACC_STATIC \<noteq> 0 then release t1 (m_class m)
                  else release t1 (peekObject t1 (frameBase t1 (frame t1))))
               else t1) = monitors t"
    using t1 mo
    by (simp add: acquire_def release_def frameBase_def peekObject_def peekInt_def fun_eq_iff)
  from assms(2) m1 rel show ?thesis
    by (auto simp: popFrame_def Let_def bind_eq_Some_conv split: if_splits)
qed

lemma thrownThread_unwinds:
  "map_option (\<lambda>(c, t). (c, frame t, monitors t 11)) (run_throw thrownThread)
     = Some (GotoLoop, 0, 1)"
  by (simp add: unwind_defs del: scanHandlers.simps(2))

text \<open>
  Claim C1 (the monitor a synchronized method acquires on entry is released on every exit
  path, the exception unwind past its frame included) fails on the code.  The receiver 11
  of the synchronized method \<open>B\<close> is not locked before the invocation, and locked once
  after \<open>pushFrame\<close>.  When \<open>B\<close> returns, \<open>popFrame\<close> releases it.  When \<open>B\<close> throws
  and the handler of the caller \<open>A\<close> is entered, the frame of \<open>B\<close> is gone and the
  receiver is still locked.
\<close>

theorem unwind_keeps_monitor_of_synchronized_method:
  "monitors callerThread 11 = 0
   \<and> map_option (\<lambda>t. monitors t 11) (pushFrame callerThread 5) = Some 1
   \<and> map_option (\<lambda>(c, t). (c, frame t, monitors t 11))
        (pushFrame callerThread 5 \<bind> run_return) = Some (GotoLoop, 0, 0)
   \<and> map_option (\<lambda>(c, t). (c, frame t, monitors t 11))
        (pushFrame callerThread 5 \<bind> (\<lambda>t. run_throw (t\<lparr>ip := 1, exception := 12\<rparr>)))
        = Some (GotoLoop, 0, 1)"
proof -
  have a: "monitors callerThread 11 = 0"
    by (simp add: callerThread_def bootThread_def)
  have b: "map_option (\<lambda>t. monitors t 11) (pushFrame callerThread 5) = Some 1"
    by (simp add: callerThread_invokes) (simp add: thrownThread_def)
  have c: "map_option (\<lambda>(c, t). (c, frame t, monitors t 11))
        (pushFrame callerThread 5 \<bind> run_return) = Some (GotoLoop, 0, 0)"
    by (simp add: callerThread_invokes)
       (simp add: run_return_def popFrame_def thrownThread_def callerThread_def callHeap_def
          bootThread_def heap_defs codeOf_def stack_defs frame_defs access_defs release_def Let_def)
  have t: "thrownThread\<lparr>ip := 1, exception := 12\<rparr> = thrownThread"
    by (simp add: thrownThread_def)
  have d: "map_option (\<lambda>(c, t). (c, frame t, monitors t 11))
        (pushFrame callerThread 5 \<bind> (\<lambda>t. run_throw (t\<lparr>ip := 1, exception := 12\<rparr>)))
        = Some (GotoLoop, 0, 1)"
    using thrownThread_unwinds by (simp add: callerThread_invokes t)
  from a b c d show ?thesis by simp
qed

end
